theory Spec2Isabelle
  imports Main "HOL-Library.Sublist"
begin

section \<open>Configuration\<close>

text \<open>
  The server reads \<^verbatim>\<open>config.env\<close>, \<^verbatim>\<open>config.port\<close>, \<^verbatim>\<open>config.cors.origin\<close>,
  \<^verbatim>\<open>config.rateLimit.windowMs\<close> and \<^verbatim>\<open>config.rateLimit.maxRequests\<close>.
  \<^verbatim>\<open>config.cors.origin\<close> is either one origin or an array of origins
  (the code tests it with \<^verbatim>\<open>Array.isArray\<close>).
\<close>

datatype cors_origin = OneOrigin string | OriginArray "string list"

record cors_config =
  origin :: cors_origin

record rateLimit_config =
  windowMs :: nat
  maxRequests :: nat

record config =
  env :: string
  port :: nat
  cors :: cors_config
  rateLimit :: rateLimit_config

section \<open>Port resolver\<close>

text \<open>
  \<^verbatim>\<open>server.listen(startPort, ...)\<close> on a fresh probe socket either reaches the
  listening callback, where the code reads \<^verbatim>\<open>server.address().port\<close>, or emits
  \<^verbatim>\<open>'error'\<close> with an error whose \<^verbatim>\<open>code\<close> the handler inspects. The operating
  system is a function from the probed port to that outcome; every port is probed at
  most once in a run, because the probe only moves upwards. A port \<open>p\<close> is free when
  its bind succeeds and reports \<open>p\<close> itself (\<open>net p = Listening p\<close>), and in conflict
  when the error's code is \<^verbatim>\<open>EADDRINUSE\<close>.
\<close>

datatype listen_outcome = Listening nat | ListenError string

datatype error =
    PortRangeExhausted nat
      \<comment> \<open>\<^verbatim>\<open>new Error(`No available ports found in range ${config.port}-5000`)\<close>\<close>
  | SystemError string
      \<comment> \<open>the error object of the failed bind, identified by its \<^verbatim>\<open>code\<close>\<close>
  | Error string
      \<comment> \<open>\<^verbatim>\<open>new Error(message)\<close>, also an error thrown by a collaborator\<close>
  | TypeError string
      \<comment> \<open>reading a property of \<^verbatim>\<open>undefined\<close>\<close>

function findAvailablePort :: "config \<Rightarrow> (nat \<Rightarrow> listen_outcome) \<Rightarrow> nat \<Rightarrow> error + nat" where
  "findAvailablePort cfg net startPort =
     (case net startPort of
        Listening bound \<Rightarrow> Inr bound
      | ListenError code \<Rightarrow>
          if code = ''EADDRINUSE'' then
            if startPort \<ge> 5000 then Inl (PortRangeExhausted (port cfg))
            else findAvailablePort cfg net (startPort + 1)
          else Inl (SystemError code))"
  by pat_completeness auto
termination
  by (relation "measure (\<lambda>(cfg, net, startPort). 5000 - startPort)") auto

declare findAvailablePort.simps [simp del]

text \<open>Concrete systems and a concrete configuration, used to run the resolver.\<close>

definition dev_config :: config where
  "dev_config = \<lparr> env = ''development'', port = 4000,
     cors = \<lparr> origin = OneOrigin ''http://localhost:3000'' \<rparr>,
     rateLimit = \<lparr> windowMs = 60000, maxRequests = 2 \<rparr> \<rparr>"

definition net_conflict_at_4000 :: "nat \<Rightarrow> listen_outcome" where
  "net_conflict_at_4000 p = (if p = 4000 then ListenError ''EADDRINUSE'' else Listening p)"

definition net_eacces_at_4000 :: "nat \<Rightarrow> listen_outcome" where
  "net_eacces_at_4000 p = (if p = 4000 then ListenError ''EACCES'' else Listening p)"

definition net_all_in_use :: "nat \<Rightarrow> listen_outcome" where
  "net_all_in_use p = ListenError ''EADDRINUSE''"

section \<open>Logging, JSON responses\<close>

datatype log_entry = LogInfo string | LogWarn string | LogError string

datatype json = JString string | JNumber nat | JUndefined

record response =
  status :: nat
  body :: "(string \<times> json) list"

text \<open>
  \<^verbatim>\<open>res.status(s).json(obj)\<close>: the body is the serialised object, and
  \<^verbatim>\<open>JSON.stringify\<close> leaves out a property whose value is \<^verbatim>\<open>undefined\<close>.
\<close>

definition res_json :: "nat \<Rightarrow> (string \<times> json) list \<Rightarrow> response" where
  "res_json s obj = \<lparr> status = s, body = filter (\<lambda>kv. snd kv \<noteq> JUndefined) obj \<rparr>"

record request =
  ip :: string
  path :: string
  headers :: "string \<rightharpoonup> string"

section \<open>Origin validation\<close>

definition isProduction :: "config \<Rightarrow> bool" where
  "isProduction cfg = (env cfg = ''production'')"

definition isDevelopment :: "config \<Rightarrow> bool" where
  "isDevelopment cfg = (env cfg = ''development'')"

definition allowedOrigins :: "config \<Rightarrow> string list" where
  "allowedOrigins cfg =
     (case origin (cors cfg) of OriginArray xs \<Rightarrow> xs | OneOrigin x \<Rightarrow> [x])"

text \<open>
  \<^verbatim>\<open>corsOptions.origin(origin, callback)\<close>. The argument is the request's Origin
  header (\<open>None\<close> when the header is absent); \<^verbatim>\<open>!origin\<close> holds for an absent and
  for an empty header. The result is what the callback receives (\<open>Inr True\<close> for
  \<^verbatim>\<open>callback(null, true)\<close>) with the log lines written.
\<close>

definition corsOptions_origin :: "config \<Rightarrow> string option \<Rightarrow> (error + bool) \<times> log_entry list" where
  "corsOptions_origin cfg orig =
     (if isDevelopment cfg then (Inr True, [])
      else
        (case orig of
           None \<Rightarrow> (Inr True, [])
         | Some ori \<Rightarrow>
             if ori = [] \<or> ori \<in> set (allowedOrigins cfg) then (Inr True, [])
             else (Inl (Error ''Not allowed by CORS''),
                   [LogWarn (''CORS blocked origin: '' @ ori)])))"

definition staging_config :: config where
  "staging_config = \<lparr> env = ''staging'', port = 4000,
     cors = \<lparr> origin = OriginArray [''https://app.example''] \<rparr>,
     rateLimit = \<lparr> windowMs = 60000, maxRequests = 2 \<rparr> \<rparr>"

definition production_config :: config where
  "production_config = \<lparr> env = ''production'', port = 4000,
     cors = \<lparr> origin = OriginArray [''https://app.example''] \<rparr>,
     rateLimit = \<lparr> windowMs = 60000, maxRequests = 2 \<rparr> \<rparr>"

section \<open>Rate limiting\<close>

text \<open>
  JavaScript numbers are IEEE doubles. \<open>double_of a b\<close> is the double nearest to the
  quotient \<open>a / b\<close> (round to nearest, ties to even, 53 significant bits), given as a
  fraction whose denominator is a power of two; overflow and subnormal numbers are out
  of its range. \<open>ceil_seconds ms\<close> is \<^verbatim>\<open>Math.ceil(ms / 1000)\<close>: the number \<open>ms\<close>
  as a double, divided by 1000 in double arithmetic, rounded up to an integer.
\<close>

definition round_half_even :: "nat \<Rightarrow> nat \<Rightarrow> nat" where
  "round_half_even a b =
     (let q = a div b; r = a mod b
      in if 2 * r < b then q
         else if b < 2 * r then q + 1
         else if even q then q else q + 1)"

function shift_up :: "nat \<Rightarrow> nat \<Rightarrow> nat \<Rightarrow> nat" where
  "shift_up a t s = (if a = 0 \<or> t \<le> a then s else shift_up (2 * a) t (s + 1))"
  by pat_completeness auto
termination
  by (relation "measure (\<lambda>(a, t, s). t - a)") auto

function shift_down :: "nat \<Rightarrow> nat \<Rightarrow> nat \<Rightarrow> nat" where
  "shift_down a t e = (if t = 0 \<or> a < t then e else shift_down a (2 * t) (e + 1))"
  by pat_completeness auto
termination
  by (relation "measure (\<lambda>(a, t, e). a + 1 - t)") auto

declare shift_up.simps [simp del]

declare shift_down.simps [simp del]

definition double_of :: "nat \<Rightarrow> nat \<Rightarrow> nat \<times> nat" where
  "double_of a b =
     (if a = 0 then (0, 1)
      else if b * 2 ^ 52 \<le> a
      then (round_half_even a (b * 2 ^ shift_down a (b * 2 ^ 53) 0)
              * 2 ^ shift_down a (b * 2 ^ 53) 0, 1)
      else (round_half_even (a * 2 ^ shift_up a (b * 2 ^ 52) 0) b,
            2 ^ shift_up a (b * 2 ^ 52) 0))"

definition Math_ceil :: "nat \<times> nat \<Rightarrow> nat" where
  "Math_ceil x = (fst x + snd x - 1) div snd x"

definition ceil_seconds :: "nat \<Rightarrow> nat" where
  "ceil_seconds ms =
     Math_ceil (double_of (fst (double_of ms 1)) (snd (double_of ms 1) * 1000))"

text \<open>
  Modelled from the spec: the counting of the rate-limit middleware (the
  \<^verbatim>\<open>express-rate-limit\<close> package, not part of the server's source). Every rule has
  a store of its own. A counter is kept per client address and per window; a window is
  a fixed interval that starts at the first counted request and lasts
  \<^verbatim>\<open>windowMs\<close> milliseconds; when it is over the counter starts again. A request is
  rejected, with the rule's handler, when its count exceeds \<^verbatim>\<open>max\<close>; a request for
  which \<^verbatim>\<open>skip\<close> holds is neither counted nor limited; under
  \<^verbatim>\<open>skipSuccessfulRequests\<close> a request that passes and is then answered with a
  status below 400 is taken off the count again. The handler a rule gets when the source
  names none sends the rule's \<^verbatim>\<open>message\<close> with status 429.
  Times are in milliseconds; a request is answered before the next one arrives.
\<close>

record hit_record =
  totalHits :: nat
  resetTime :: nat

type_synonym store = "string \<rightharpoonup> hit_record"

record arrival =
  at_ms :: nat
  request_of :: request
  succeeds :: bool

record 'r options =
  opt_windowMs :: nat
  opt_max :: nat
  opt_skip :: "request \<Rightarrow> bool"
  opt_skipSuccessfulRequests :: bool
  opt_handler :: "request \<Rightarrow> 'r \<times> log_entry list"

definition increment :: "nat \<Rightarrow> nat \<Rightarrow> store \<Rightarrow> string \<Rightarrow> hit_record" where
  "increment window now st key =
     (case st key of
        None \<Rightarrow> \<lparr> totalHits = 1, resetTime = now + window \<rparr>
      | Some h \<Rightarrow>
          if now < resetTime h then h \<lparr> totalHits := totalHits h + 1 \<rparr>
          else \<lparr> totalHits = 1, resetTime = now + window \<rparr>)"

definition rateLimit_middleware ::
  "'r options \<Rightarrow> store \<Rightarrow> arrival \<Rightarrow> store \<times> 'r option \<times> log_entry list" where
  "rateLimit_middleware opts st a =
     (if opt_skip opts (request_of a) then (st, None, [])
      else
        let key = ip (request_of a);
            h = increment (opt_windowMs opts) (at_ms a) st key
        in if totalHits h > opt_max opts
           then (st(key \<mapsto> h),
                 Some (fst (opt_handler opts (request_of a))),
                 snd (opt_handler opts (request_of a)))
           else if opt_skipSuccessfulRequests opts \<and> succeeds a
           then (st(key \<mapsto> h \<lparr> totalHits := totalHits h - 1 \<rparr>), None, [])
           else (st(key \<mapsto> h), None, []))"

definition default_handler :: "(string \<times> json) list \<Rightarrow> request \<Rightarrow> response \<times> log_entry list" where
  "default_handler msg rq = (res_json 429 msg, [])"

text \<open>
  The three rules, with the options the source gives them. \<^verbatim>\<open>generalLimiter\<close> has
  a handler of its own (its \<^verbatim>\<open>message\<close> option is then not used);
  \<^verbatim>\<open>authLimiter\<close> has a \<^verbatim>\<open>message\<close> and skips successful requests; the rule for
  the GraphQL endpoint names neither handler nor message, so what it answers is the
  package's default answer, a parameter here. The source mounts the last two at
  \<^verbatim>\<open>/api/auth\<close> and \<^verbatim>\<open>/graphql\<close>: only the requests under these paths reach them.
\<close>

definition generalLimiter_handler :: "config \<Rightarrow> request \<Rightarrow> response \<times> log_entry list" where
  "generalLimiter_handler cfg rq =
     (res_json 429
        [(''error'', JString ''Rate limit exceeded''),
         (''message'', JString ''Too many requests from this IP address''),
         (''retryAfter'', JNumber (ceil_seconds (windowMs (rateLimit cfg))))],
      [LogWarn (''Rate limit exceeded for IP: '' @ ip rq @ '' on '' @ path rq)])"

definition generalLimiter_options :: "config \<Rightarrow> response options" where
  "generalLimiter_options cfg =
     \<lparr> opt_windowMs = windowMs (rateLimit cfg),
       opt_max = maxRequests (rateLimit cfg),
       opt_skip = (\<lambda>rq. path rq = ''/health''),
       opt_skipSuccessfulRequests = False,
       opt_handler = generalLimiter_handler cfg \<rparr>"

definition authLimiter_options :: "config \<Rightarrow> response options" where
  "authLimiter_options cfg =
     \<lparr> opt_windowMs = 15 * 60 * 1000,
       opt_max = (if isProduction cfg then 5 else 50),
       opt_skip = (\<lambda>rq. False),
       opt_skipSuccessfulRequests = True,
       opt_handler = default_handler
         [(''error'', JString ''Too many authentication attempts''),
          (''retryAfter'', JNumber (15 * 60))] \<rparr>"

definition graphqlLimiter_options :: "'r \<Rightarrow> config \<Rightarrow> 'r options" where
  "graphqlLimiter_options default_answer cfg =
     \<lparr> opt_windowMs = 1 * 60 * 1000,
       opt_max = (if isProduction cfg then 100 else 1000),
       opt_skip = (\<lambda>rq. False),
       opt_skipSuccessfulRequests = False,
       opt_handler = (\<lambda>rq. (default_answer, [])) \<rparr>"

definition generalLimiter ::
  "config \<Rightarrow> store \<Rightarrow> arrival \<Rightarrow> store \<times> response option \<times> log_entry list" where
  "generalLimiter cfg = rateLimit_middleware (generalLimiter_options cfg)"

definition authLimiter ::
  "config \<Rightarrow> store \<Rightarrow> arrival \<Rightarrow> store \<times> response option \<times> log_entry list" where
  "authLimiter cfg = rateLimit_middleware (authLimiter_options cfg)"

definition graphqlLimiter ::
  "'r \<Rightarrow> config \<Rightarrow> store \<Rightarrow> arrival \<Rightarrow> store \<times> 'r option \<times> log_entry list" where
  "graphqlLimiter default_answer cfg =
     rateLimit_middleware (graphqlLimiter_options default_answer cfg)"

text \<open>
  The requests that reach a rule, of whatever clients, passed through it one after the
  other; the result is the final store and, per request, the rejection (or \<open>None\<close> when
  the request goes on to the next middleware) with the log lines.
\<close>

fun run_limiter ::
  "(store \<Rightarrow> arrival \<Rightarrow> store \<times> 'r option \<times> log_entry list) \<Rightarrow> store \<Rightarrow> arrival list \<Rightarrow>
     store \<times> ('r option \<times> log_entry list) list" where
  "run_limiter limiter st [] = (st, [])"
| "run_limiter limiter st (a # as) =
     (case limiter st a of
        (st', out) \<Rightarrow>
          (case run_limiter limiter st' as of (st'', outs) \<Rightarrow> (st'', out # outs)))"

text \<open>
  The vocabulary of the rate-limit claim. A request concerns a client under a rule when
  it comes from the client's address and the rule does not skip it. \<open>counted_before\<close>
  is the number of the client's requests among the first \<open>i\<close> that the rule keeps on
  the count (all of them, or the unsuccessful ones under
  \<^verbatim>\<open>skipSuccessfulRequests\<close>). \<open>one_window\<close> says that the client's requests all
  fall into one window, the one that the first of them opens.
\<close>

definition concerns :: "'r options \<Rightarrow> string \<Rightarrow> arrival \<Rightarrow> bool" where
  "concerns opts key a = (ip (request_of a) = key \<and> \<not> opt_skip opts (request_of a))"

definition counted_before :: "'r options \<Rightarrow> string \<Rightarrow> nat \<Rightarrow> arrival list \<Rightarrow> nat" where
  "counted_before opts key i as =
     length (filter (\<lambda>a. concerns opts key a
                          \<and> \<not> (opt_skipSuccessfulRequests opts \<and> succeeds a)) (take i as))"

definition one_window :: "'r options \<Rightarrow> store \<Rightarrow> string \<Rightarrow> arrival list \<Rightarrow> bool" where
  "one_window opts st key as =
     (case filter (concerns opts key) as of
        [] \<Rightarrow> True
      | a0 # rest \<Rightarrow>
          (case st key of None \<Rightarrow> True | Some h \<Rightarrow> resetTime h \<le> at_ms a0)
          \<and> list_all (\<lambda>a. at_ms a < at_ms a0 + opt_windowMs opts) (a0 # rest))"

text \<open>The time left in a client's current window, in milliseconds.\<close>

definition remaining_ms :: "store \<Rightarrow> string \<Rightarrow> nat \<Rightarrow> nat" where
  "remaining_ms st key now =
     (case st key of None \<Rightarrow> 0 | Some h \<Rightarrow> resetTime h - now)"

definition arrival_at :: "nat \<Rightarrow> string \<Rightarrow> string \<Rightarrow> bool \<Rightarrow> arrival" where
  "arrival_at t client p ok =
     \<lparr> at_ms = t,
       request_of = \<lparr> ip = client, path = p, headers = Map.empty \<rparr>,
       succeeds = ok \<rparr>"

text \<open>Traffic to run the rules on: two clients and a liveness check; six failed logins;
  a burst of 101 requests to the GraphQL endpoint.\<close>

definition mixed_traffic :: "arrival list" where
  "mixed_traffic =
     [arrival_at 0 ''10.0.0.1'' ''/api/graphrag'' True,
      arrival_at 5 ''10.0.0.2'' ''/api/graphrag'' True,
      arrival_at 10 ''10.0.0.1'' ''/health'' True,
      arrival_at 10000 ''10.0.0.1'' ''/api/graphrag'' True,
      arrival_at 59000 ''10.0.0.1'' ''/api/graphrag'' True,
      arrival_at 59500 ''10.0.0.2'' ''/api/graphrag'' True]"

definition failed_logins :: "arrival list" where
  "failed_logins =
     [arrival_at 0 ''10.0.0.1'' ''/api/auth/login'' False,
      arrival_at 1000 ''10.0.0.1'' ''/api/auth/login'' False,
      arrival_at 2000 ''10.0.0.1'' ''/api/auth/login'' False,
      arrival_at 3000 ''10.0.0.1'' ''/api/auth/login'' False,
      arrival_at 4000 ''10.0.0.1'' ''/api/auth/login'' False,
      arrival_at 5000 ''10.0.0.1'' ''/api/auth/login'' False]"

definition graphql_burst :: "arrival list" where
  "graphql_burst = replicate 101 (arrival_at 0 ''10.0.0.1'' ''/graphql'' True)"

section \<open>Authentication context\<close>

text \<open>
  \<^verbatim>\<open>s.replace(pattern, replacement)\<close> with a string pattern: the first occurrence of
  the pattern is replaced, wherever it stands.
\<close>

fun js_replace :: "string \<Rightarrow> string \<Rightarrow> string \<Rightarrow> string" where
  "js_replace pat rep [] = (if pat = [] then rep else [])"
| "js_replace pat rep (c # cs) =
     (if prefix pat (c # cs) then rep @ drop (length pat) (c # cs)
      else c # js_replace pat rep cs)"

text \<open>
  A context object has the properties \<^verbatim>\<open>user\<close>, \<^verbatim>\<open>req\<close> and \<^verbatim>\<open>logger\<close>; the
  object made at the handshake of a persistent connection has \<^verbatim>\<open>user\<close> only.
  Objects live in a heap and are known by their address (the index in the heap), so that
  two results can be compared for being the same object. The memory also records the
  tokens handed to \<^verbatim>\<open>verifyToken\<close>, in order.
\<close>

record 'u context_obj =
  user :: "'u option"
  req :: "request option"
  logger :: bool

record 'u memory =
  heap :: "'u context_obj list"
  verified :: "string list"

definition alloc :: "'u context_obj \<Rightarrow> 'u memory \<Rightarrow> 'u memory \<times> (error + nat)" where
  "alloc obj m = (m \<lparr> heap := heap m @ [obj] \<rparr>, Inr (length (heap m)))"

record connection =
  connection_context :: nat

text \<open>
  \<^verbatim>\<open>AuthService.verifyToken\<close> is a collaborator: a parameter of the model. It maps a
  token to the identity it resolves (\<open>Inr (Some u)\<close>), to no identity (\<open>Inr None\<close>),
  or it throws (\<open>Inl e\<close>).
\<close>

type_synonym 'u verifyToken = "string \<Rightarrow> error + 'u option"

text \<open>The \<^verbatim>\<open>context\<close> function given to the GraphQL server.\<close>

definition apollo_context ::
  "'u verifyToken \<Rightarrow> 'u memory \<Rightarrow> request option \<Rightarrow> connection option \<Rightarrow>
     'u memory \<times> (error + nat)" where
  "apollo_context verifyToken m rq conn =
     (case conn of
        Some c \<Rightarrow> (m, Inr (connection_context c))
      | None \<Rightarrow>
          (case rq of
             None \<Rightarrow> (m, Inl (TypeError ''Cannot read properties of undefined''))
           | Some r \<Rightarrow>
               (case map_option (js_replace ''Bearer '' []) (headers r ''authorization'') of
                  None \<Rightarrow> alloc \<lparr> user = None, req = Some r, logger = True \<rparr> m
                | Some token \<Rightarrow>
                    if token = [] then alloc \<lparr> user = None, req = Some r, logger = True \<rparr> m
                    else
                      (case verifyToken token of
                         Inl e \<Rightarrow> (m \<lparr> verified := verified m @ [token] \<rparr>, Inl e)
                       | Inr u \<Rightarrow>
                           alloc \<lparr> user = u, req = Some r, logger = True \<rparr>
                             (m \<lparr> verified := verified m @ [token] \<rparr>)))))"

text \<open>
  \<^verbatim>\<open>subscriptions.onConnect(connectionParams)\<close>. The argument is what the client
  sent as connection parameters: an object, or nothing (\<open>None\<close>), in which case reading
  \<^verbatim>\<open>connectionParams.authorization\<close> throws.
\<close>

definition onConnect ::
  "'u verifyToken \<Rightarrow> 'u memory \<Rightarrow> (string \<rightharpoonup> string) option \<Rightarrow> 'u memory \<times> (error + nat)" where
  "onConnect verifyToken m connectionParams =
     (case connectionParams of
        None \<Rightarrow> (m, Inl (TypeError ''Cannot read properties of undefined''))
      | Some ps \<Rightarrow>
          (case map_option (js_replace ''Bearer '' []) (ps ''authorization'') of
             None \<Rightarrow> alloc \<lparr> user = None, req = None, logger = False \<rparr> m
           | Some token \<Rightarrow>
               if token = [] then alloc \<lparr> user = None, req = None, logger = False \<rparr> m
               else
                 (case verifyToken token of
                    Inl e \<Rightarrow> (m \<lparr> verified := verified m @ [token] \<rparr>, Inl e)
                  | Inr u \<Rightarrow>
                      alloc \<lparr> user = u, req = None, logger = False \<rparr>
                        (m \<lparr> verified := verified m @ [token] \<rparr>))))"

text \<open>The identity a resolution ends with: the error, or the \<^verbatim>\<open>user\<close> of the object.\<close>

definition resolved_user :: "'u memory \<times> (error + nat) \<Rightarrow> error + 'u option" where
  "resolved_user res =
     (case snd res of Inl e \<Rightarrow> Inl e | Inr a \<Rightarrow> Inr (user (heap (fst res) ! a)))"

text \<open>
  Modelled from the spec: the persistent-connection transport (a package outside the
  server's source). It calls \<^verbatim>\<open>onConnect\<close> once, at the handshake, keeps the object
  it got as the connection's \<^verbatim>\<open>context\<close>, and hands the connection to the
  \<^verbatim>\<open>context\<close> function at every operation on it.
\<close>

definition ws_connect ::
  "'u verifyToken \<Rightarrow> 'u memory \<Rightarrow> (string \<rightharpoonup> string) option \<Rightarrow>
     'u memory \<times> (error + connection)" where
  "ws_connect verifyToken m connectionParams =
     (case onConnect verifyToken m connectionParams of
        (m', Inl e) \<Rightarrow> (m', Inl e)
      | (m', Inr a) \<Rightarrow> (m', Inr \<lparr> connection_context = a \<rparr>))"

fun ws_operations ::
  "'u verifyToken \<Rightarrow> 'u memory \<Rightarrow> connection \<Rightarrow> nat \<Rightarrow> 'u memory \<times> (error + nat) list" where
  "ws_operations verifyToken m c 0 = (m, [])"
| "ws_operations verifyToken m c (Suc n) =
     (case apollo_context verifyToken m None (Some c) of
        (m', ctx) \<Rightarrow>
          (case ws_operations verifyToken m' c n of (m'', ctxs) \<Rightarrow> (m'', ctx # ctxs)))"

text \<open>Everything that makes the server build or fetch a context.\<close>

datatype gateway_event =
    HttpRequest request
  | WsConnect "(string \<rightharpoonup> string) option"
  | WsOperation connection

definition gateway_step :: "'u verifyToken \<Rightarrow> 'u memory \<Rightarrow> gateway_event \<Rightarrow> 'u memory" where
  "gateway_step verifyToken m ev =
     (case ev of
        HttpRequest r \<Rightarrow> fst (apollo_context verifyToken m (Some r) None)
      | WsConnect ps \<Rightarrow> fst (onConnect verifyToken m ps)
      | WsOperation c \<Rightarrow> fst (apollo_context verifyToken m None (Some c)))"

definition gateway_run :: "'u verifyToken \<Rightarrow> 'u memory \<Rightarrow> gateway_event list \<Rightarrow> 'u memory" where
  "gateway_run verifyToken = foldl (gateway_step verifyToken)"

text \<open>A verifier, a memory and credentials to run the resolution on.\<close>

definition demo_verifyToken :: "string verifyToken" where
  "demo_verifyToken t =
     (if t = ''good'' then Inr (Some ''alice'')
      else if t = ''boom'' then Inl (Error ''jwt malformed'')
      else Inr None)"

definition empty_memory :: "string memory" where
  "empty_memory = \<lparr> heap = [], verified = [] \<rparr>"

definition connected_memory :: "string memory" where
  "connected_memory =
     \<lparr> heap = [\<lparr> user = Some ''alice'', req = None, logger = False \<rparr>], verified = [''good''] \<rparr>"

definition request_with :: "string option \<Rightarrow> request" where
  "request_with auth =
     \<lparr> ip = ''10.0.0.1'', path = ''/graphql'',
       headers = (\<lambda>k. if k = ''authorization'' then auth else None) \<rparr>"

definition params_with :: "string option \<Rightarrow> (string \<rightharpoonup> string)" where
  "params_with auth = (\<lambda>k. if k = ''authorization'' then auth else None)"

section \<open>Process lifecycle\<close>

text \<open>Decimal digits of a number, as a template literal prints it.\<close>

fun string_of_nat :: "nat \<Rightarrow> string" where
  "string_of_nat n =
     (if n < 10 then [''0123456789'' ! n]
      else string_of_nat (n div 10) @ [''0123456789'' ! (n mod 10)])"

declare string_of_nat.simps [simp del]

fun message_of :: "error \<Rightarrow> string" where
  "message_of (PortRangeExhausted p) =
     ''No available ports found in range '' @ string_of_nat p @ ''-5000''"
| "message_of (SystemError code) = code"
| "message_of (Error m) = m"
| "message_of (TypeError m) = m"

text \<open>
  What the process does, in order: the calls to its collaborators, the log lines, the
  responses it sends and \<^verbatim>\<open>process.exit\<close>. \<open>InstallMiddleware\<close> stands for the
  registration of the security pipeline, the routes and the GraphQL server's
  construction, and \<open>InstallHandlers\<close> for that of the GraphQL middleware, the socket
  handlers, the error handler and the catch-all route; they wait for nothing.
  Log texts are given without their pictographs.
\<close>

datatype action =
    Log log_entry
  | InitSocket | SetIO | StartAIWorker | BridgeStart
  | ConnectNeo4j | ConnectPostgres | ConnectRedis
  | InstallMiddleware | ApolloStart | InstallHandlers
  | FindAvailablePort nat
  | HttpListen nat
  | ApolloStop | CloseConnections | HttpClose
  | Respond response
  | Exit nat

text \<open>
  The collaborators' answers. A promise resolves (\<open>None\<close>) or rejects with an error;
  \<open>probe\<close> answers the resolver's probe binds; \<open>listen\<close> answers the bind of the
  real listener (\<open>None\<close>: listening, \<open>Some code\<close>: an \<^verbatim>\<open>'error'\<close> event);
  \<open>closed\<close> says whether the callback of \<^verbatim>\<open>httpServer.close\<close> is ever called,
  which happens once the listener has stopped and its connections have ended.
\<close>

record world =
  connectNeo4j :: "error option"
  connectPostgres :: "error option"
  connectRedis :: "error option"
  apolloStart :: "error option"
  probe :: "nat \<Rightarrow> listen_outcome"
  listen :: "nat \<Rightarrow> string option"
  apolloStop :: "error option"
  closeConnections :: "error option"
  closed :: bool

definition startServer_catch :: "error \<Rightarrow> action list" where
  "startServer_catch e =
     [Log (LogError (''Failed to start server: '' @ message_of e)), Exit 1]"

definition httpServer_on_error :: "nat \<Rightarrow> string \<Rightarrow> action list" where
  "httpServer_on_error P code =
     (if code = ''EADDRINUSE'' then
        [Log (LogError (''Port '' @ string_of_nat P @
           '' is already in use. Please stop the existing process or choose a different port.'')),
         Log (LogError (''To find processes using the port, run: lsof -i :'' @ string_of_nat P)),
         Log (LogError ''To kill the process, run: kill -9 <PID>''),
         Exit 1]
      else [Log (LogError ''Server error:''), Exit 1])"

definition listening_logs :: "config \<Rightarrow> nat \<Rightarrow> action list" where
  "listening_logs cfg P =
     [Log (LogInfo (''IntelGraph AI Server running on port '' @ string_of_nat P)),
      Log (LogInfo (''GraphQL endpoint: http://localhost:'' @ string_of_nat P @ ''/graphql'')),
      Log (LogInfo ''WebSocket subscriptions enabled''),
      Log (LogInfo (''Environment: '' @ env cfg)),
      Log (LogInfo ''AI features enabled''),
      Log (LogInfo ''Security features enabled''),
      Log (LogInfo ''Real-time updates enabled'')]"

definition startServer :: "config \<Rightarrow> world \<Rightarrow> action list" where
  "startServer cfg w =
     [InitSocket, SetIO, StartAIWorker, BridgeStart,
      Log (LogInfo ''Connecting to databases...''), ConnectNeo4j] @
     (case connectNeo4j w of
        Some e \<Rightarrow> startServer_catch e
      | None \<Rightarrow> ConnectPostgres #
     (case connectPostgres w of
        Some e \<Rightarrow> startServer_catch e
      | None \<Rightarrow> ConnectRedis #
     (case connectRedis w of
        Some e \<Rightarrow> startServer_catch e
      | None \<Rightarrow>
          [Log (LogInfo ''All databases connected''), InstallMiddleware, ApolloStart] @
     (case apolloStart w of
        Some e \<Rightarrow> startServer_catch e
      | None \<Rightarrow> [InstallHandlers, FindAvailablePort (port cfg)] @
     (case findAvailablePort cfg (probe w) (port cfg) of
        Inl e \<Rightarrow> startServer_catch e
      | Inr P \<Rightarrow> HttpListen P #
     (case listen w P of
        None \<Rightarrow> listening_logs cfg P
      | Some code \<Rightarrow> httpServer_on_error P code))))))"

text \<open>The handlers of \<^verbatim>\<open>'uncaughtException'\<close> and \<^verbatim>\<open>'unhandledRejection'\<close>.\<close>

definition uncaughtException :: "error \<Rightarrow> action list" where
  "uncaughtException e = [Log (LogError (''Uncaught Exception: '' @ message_of e)), Exit 1]"

definition unhandledRejection :: "error \<Rightarrow> action list" where
  "unhandledRejection e = [Log (LogError ''Unhandled Rejection:''), Exit 1]"

text \<open>
  The handler of \<^verbatim>\<open>SIGTERM\<close>, an async function: a rejected \<^verbatim>\<open>await\<close> rejects
  the handler's promise, which nothing handles, so \<^verbatim>\<open>'unhandledRejection'\<close> fires.
\<close>

definition sigterm_handler :: "world \<Rightarrow> action list" where
  "sigterm_handler w =
     [Log (LogInfo ''SIGTERM received, shutting down gracefully''), ApolloStop] @
     (case apolloStop w of
        Some e \<Rightarrow> unhandledRejection e
      | None \<Rightarrow> CloseConnections #
     (case closeConnections w of
        Some e \<Rightarrow> unhandledRejection e
      | None \<Rightarrow> HttpClose #
     (if closed w then [Log (LogInfo ''Process terminated''), Exit 0] else [])))"

text \<open>The exit codes in a trace, and whether one action comes before another in it.\<close>

fun exits :: "action list \<Rightarrow> nat list" where
  "exits [] = []"
| "exits (Exit n # as) = n # exits as"
| "exits (a # as) = exits as"

fun binds :: "action list \<Rightarrow> nat list" where
  "binds [] = []"
| "binds (FindAvailablePort p # as) = p # binds as"
| "binds (HttpListen p # as) = p # binds as"
| "binds (a # as) = binds as"

definition precedes :: "action \<Rightarrow> action \<Rightarrow> action list \<Rightarrow> bool" where
  "precedes a b tr = (b \<in> set (drop 1 (dropWhile (\<lambda>x. x \<noteq> a) tr)))"

definition healthy_world :: world where
  "healthy_world = \<lparr> connectNeo4j = None, connectPostgres = None, connectRedis = None,
     apolloStart = None, probe = Listening, listen = (\<lambda>p. None),
     apolloStop = None, closeConnections = None, closed = True \<rparr>"

definition no_database_world :: world where
  "no_database_world = healthy_world \<lparr>
     connectNeo4j := Some (Error ''neo4j unavailable''),
     connectPostgres := Some (Error ''postgres unavailable''),
     connectRedis := Some (Error ''redis unavailable'') \<rparr>"

section \<open>Final error handler\<close>

text \<open>
  An error that reaches the last error-handling middleware; its \<^verbatim>\<open>message\<close> is
  \<open>None\<close> when the thrown value has none (\<^verbatim>\<open>undefined\<close>).
\<close>

record js_error =
  message :: "string option"

definition express_error_handler :: "config \<Rightarrow> js_error \<Rightarrow> action list" where
  "express_error_handler cfg err =
     [Log (LogError (''Unhandled error: '' @
        (case message err of None \<Rightarrow> ''undefined'' | Some m \<Rightarrow> m))),
      Respond (res_json 500
        [(''error'', JString ''Internal Server Error''),
         (''message'',
            if env cfg = ''development''
            then (case message err of None \<Rightarrow> JUndefined | Some m \<Rightarrow> JString m)
            else JString ''Something went wrong'')])]"

text \<open>The responses sent in a trace.\<close>

fun responses :: "action list \<Rightarrow> response list" where
  "responses [] = []"
| "responses (Respond r # as) = r # responses as"
| "responses (a # as) = responses as"

definition secret_error :: js_error where
  "secret_error = \<lparr> message = Some ''connect ECONNREFUSED 10.1.2.3:5432'' \<rparr>"

section \<open>Properties\<close>


subsection \<open>Port resolver: stepping lemmas\<close>

lemma findAvailablePort_listening:
  "net p = Listening q \<Longrightarrow> findAvailablePort cfg net p = Inr q"
  by (simp add: findAvailablePort.simps)

lemma findAvailablePort_other_error:
  "net p = ListenError code \<Longrightarrow> code \<noteq> ''EADDRINUSE'' \<Longrightarrow>
     findAvailablePort cfg net p = Inl (SystemError code)"
  by (simp add: findAvailablePort.simps)

lemma findAvailablePort_retry:
  "net p = ListenError ''EADDRINUSE'' \<Longrightarrow> p < 5000 \<Longrightarrow>
     findAvailablePort cfg net p = findAvailablePort cfg net (p + 1)"
  by (subst findAvailablePort.simps) simp

lemma findAvailablePort_exhausted_at:
  "net p = ListenError ''EADDRINUSE'' \<Longrightarrow> 5000 \<le> p \<Longrightarrow>
     findAvailablePort cfg net p = Inl (PortRangeExhausted (port cfg))"
  by (subst findAvailablePort.simps) simp

lemma findAvailablePort_skip_conflicts:
  "\<forall>r. p \<le> r \<and> r < q \<longrightarrow> net r = ListenError ''EADDRINUSE'' \<Longrightarrow> p \<le> q \<Longrightarrow> q \<le> 5000 \<Longrightarrow>
     findAvailablePort cfg net p = findAvailablePort cfg net q"
proof (induction "q - p" arbitrary: p)
  case 0
  then show ?case by simp
next
  case (Suc n)
  have lt: "p < q" using Suc.hyps(2) by arith
  have busy: "net p = ListenError ''EADDRINUSE''" using Suc.prems(1) lt by simp
  have step: "findAvailablePort cfg net p = findAvailablePort cfg net (p + 1)"
    using busy lt Suc.prems(3) by (intro findAvailablePort_retry) simp_all
  have rest: "findAvailablePort cfg net (p + 1) = findAvailablePort cfg net q"
    using Suc.hyps(2) Suc.prems lt by (intro Suc.hyps(1)) simp_all
  show ?case using step rest by simp
qed

lemma findAvailablePort_config_independent:
  "(findAvailablePort cfg net p = Inr q) = (findAvailablePort cfg' net p = Inr q)"
proof (induction cfg net p rule: findAvailablePort.induct)
  case (1 cfg net startPort)
  show ?case
  proof (cases "net startPort")
    case (Listening b)
    then show ?thesis by (simp add: findAvailablePort_listening)
  next
    case (ListenError code)
    show ?thesis
    proof (cases "code = ''EADDRINUSE''")
      case False
      then show ?thesis using ListenError by (simp add: findAvailablePort_other_error)
    next
      case True
      show ?thesis
      proof (cases "5000 \<le> startPort")
        case True
        then show ?thesis
          using ListenError \<open>code = ''EADDRINUSE''\<close> by (simp add: findAvailablePort_exhausted_at)
      next
        case False
        then have lt: "startPort < 5000" by simp
        have "findAvailablePort cfg net startPort = findAvailablePort cfg net (startPort + 1)"
          using ListenError True lt by (simp add: findAvailablePort_retry)
        moreover have "findAvailablePort cfg' net startPort = findAvailablePort cfg' net (startPort + 1)"
          using ListenError True lt by (simp add: findAvailablePort_retry)
        moreover have "(findAvailablePort cfg net (startPort + 1) = Inr q)
            = (findAvailablePort cfg' net (startPort + 1) = Inr q)"
          using "1.IH" [OF ListenError True] False by simp
        ultimately show ?thesis by simp
      qed
    qed
  qed
qed

subsection \<open>Port resolver: the claims\<close>

text \<open>
  C1, as stated, fails on the code in two ways.
  (a) The resolver has no upper-bound argument: the bound is the constant 5000. With the
  upper bound 4000 and the starting port 4000 in conflict, no port of the range
  [4000, 4000] is free, yet the resolver goes on to port 4001 and returns it instead of
  failing with the range-exhausted error.
  (b) With port 4000 refusing the bind for another reason (EACCES) and port 4001 free,
  a port of [4000, 5000] is free, yet the resolver does not return the smallest free
  port: it fails at once with the bind error.
\<close>

theorem findAvailablePort_counterexample:
  "net_conflict_at_4000 4000 = ListenError ''EADDRINUSE''
   \<and> findAvailablePort dev_config net_conflict_at_4000 4000 = Inr 4001
   \<and> net_eacces_at_4000 4001 = Listening 4001
   \<and> findAvailablePort dev_config net_eacces_at_4000 4000 = Inl (SystemError ''EACCES'')"
  by (simp add: findAvailablePort.simps net_conflict_at_4000_def net_eacces_at_4000_def)

text \<open>
  C1, amended. The upper bound is the constant 5000. For every starting port
  \<open>p \<le> 5000\<close>: when the ports from \<open>p\<close> up to \<open>q\<close> (excluded) all answer with a bind
  conflict and \<open>q \<le> 5000\<close> is free, the resolver returns \<open>q\<close>, which is the smallest
  free port from \<open>p\<close> on; when every port of \<open>[p, 5000]\<close> answers with a bind
  conflict, it fails with the range-exhausted error; a bind conflict below 5000 makes it
  go on with the next integer port; any other bind error makes it fail at once with that
  error.
\<close>

theorem findAvailablePort_resolves:
  "(p \<le> q \<and> q \<le> 5000 \<and> (\<forall>r. p \<le> r \<and> r < q \<longrightarrow> net r = ListenError ''EADDRINUSE'')
      \<and> net q = Listening q
     \<longrightarrow> findAvailablePort cfg net p = Inr q
         \<and> (\<forall>r. p \<le> r \<and> r < q \<longrightarrow> net r \<noteq> Listening r))
   \<and> (p \<le> 5000 \<and> (\<forall>r. p \<le> r \<and> r \<le> 5000 \<longrightarrow> net r = ListenError ''EADDRINUSE'')
     \<longrightarrow> findAvailablePort cfg net p = Inl (PortRangeExhausted (port cfg)))
   \<and> (net p = ListenError ''EADDRINUSE'' \<and> p < 5000
     \<longrightarrow> findAvailablePort cfg net p = findAvailablePort cfg net (p + 1))
   \<and> (net p = ListenError code \<and> code \<noteq> ''EADDRINUSE''
     \<longrightarrow> findAvailablePort cfg net p = Inl (SystemError code))"
proof (intro conjI impI)
  assume h: "p \<le> q \<and> q \<le> 5000 \<and> (\<forall>r. p \<le> r \<and> r < q \<longrightarrow> net r = ListenError ''EADDRINUSE'')
      \<and> net q = Listening q"
  then have "findAvailablePort cfg net p = findAvailablePort cfg net q"
    by (intro findAvailablePort_skip_conflicts) simp_all
  then show "findAvailablePort cfg net p = Inr q"
    using h by (simp add: findAvailablePort_listening)
  show "\<forall>r. p \<le> r \<and> r < q \<longrightarrow> net r \<noteq> Listening r"
    using h by simp
next
  assume h: "p \<le> 5000 \<and> (\<forall>r. p \<le> r \<and> r \<le> 5000 \<longrightarrow> net r = ListenError ''EADDRINUSE'')"
  then have "findAvailablePort cfg net p = findAvailablePort cfg net 5000"
    by (intro findAvailablePort_skip_conflicts) simp_all
  then show "findAvailablePort cfg net p = Inl (PortRangeExhausted (port cfg))"
    using h by (simp add: findAvailablePort_exhausted_at)
next
  assume "net p = ListenError ''EADDRINUSE'' \<and> p < 5000"
  then show "findAvailablePort cfg net p = findAvailablePort cfg net (p + 1)"
    by (simp add: findAvailablePort_retry)
next
  assume "net p = ListenError code \<and> code \<noteq> ''EADDRINUSE''"
  then show "findAvailablePort cfg net p = Inl (SystemError code)"
    by (simp add: findAvailablePort_other_error)
qed

theorem findAvailablePort_resolves_witness:
  "findAvailablePort dev_config net_conflict_at_4000 4000 = Inr 4001
   \<and> findAvailablePort dev_config net_all_in_use 4999 = Inl (PortRangeExhausted 4000)
   \<and> findAvailablePort dev_config net_conflict_at_4000 4000 = findAvailablePort dev_config net_conflict_at_4000 4001
   \<and> findAvailablePort dev_config net_eacces_at_4000 4000 = Inl (SystemError ''EACCES'')"
proof -
  have a: "findAvailablePort dev_config net_conflict_at_4000 4000 = Inr 4001"
    using findAvailablePort_resolves [of 4000 4001 net_conflict_at_4000 dev_config]
    by (simp add: net_conflict_at_4000_def)
  have b: "findAvailablePort dev_config net_all_in_use 4999 = Inl (PortRangeExhausted 4000)"
    using findAvailablePort_resolves [of 4999 4999 net_all_in_use dev_config]
    by (simp add: net_all_in_use_def dev_config_def)
  have c: "findAvailablePort dev_config net_conflict_at_4000 4000 = findAvailablePort dev_config net_conflict_at_4000 4001"
    using findAvailablePort_resolves [of 4000 4000 net_conflict_at_4000 dev_config]
    by (simp add: net_conflict_at_4000_def)
  have d: "findAvailablePort dev_config net_eacces_at_4000 4000 = Inl (SystemError ''EACCES'')"
    using findAvailablePort_resolves [of 4000 4000 net_eacces_at_4000 dev_config "''EACCES''"]
    by (simp add: net_eacces_at_4000_def)
  show ?thesis using a b c d by simp
qed

text \<open>
  C10. The bound 5000 is looked at only after a bind conflict: a starting port above 5000
  whose probe bind succeeds is returned; a bind conflict at a port from 5000 on fails
  with the range-exhausted error; and the bound is not taken from the configuration,
  since the port the resolver returns is the same under every configuration.
\<close>

theorem findAvailablePort_bound_after_conflict_only:
  "(5000 < p \<and> net p = Listening p \<longrightarrow> findAvailablePort cfg net p = Inr p)
   \<and> (5000 \<le> p \<and> net p = ListenError ''EADDRINUSE''
        \<longrightarrow> findAvailablePort cfg net p = Inl (PortRangeExhausted (port cfg)))
   \<and> (findAvailablePort cfg net p = Inr q) = (findAvailablePort cfg' net p = Inr q)"
  using findAvailablePort_config_independent [of cfg net p q cfg']
  by (simp add: findAvailablePort_listening findAvailablePort_exhausted_at)

theorem findAvailablePort_bound_after_conflict_only_witness:
  "findAvailablePort dev_config net_conflict_at_4000 6000 = Inr 6000
   \<and> findAvailablePort dev_config net_all_in_use 5000 = Inl (PortRangeExhausted 4000)
   \<and> findAvailablePort (dev_config \<lparr> port := 7000 \<rparr>) net_all_in_use 5000 = Inl (PortRangeExhausted 7000)"
  using findAvailablePort_bound_after_conflict_only [of 6000 net_conflict_at_4000 dev_config 6000 dev_config]
    findAvailablePort_bound_after_conflict_only [of 5000 net_all_in_use dev_config 0 dev_config]
    findAvailablePort_bound_after_conflict_only [of 5000 net_all_in_use "dev_config \<lparr> port := 7000 \<rparr>" 0 dev_config]
  by (simp add: net_conflict_at_4000_def net_all_in_use_def dev_config_def)

subsection \<open>Origin validation\<close>

text \<open>
  C2, as stated, fails on the code: the check opens up for the environment
  \<^verbatim>\<open>development\<close> only, not for every environment other than production. In the
  environment \<^verbatim>\<open>staging\<close> a request whose origin is not in the allow-list is
  rejected.
\<close>

theorem corsOptions_origin_counterexample:
  "env staging_config \<noteq> ''production''
   \<and> corsOptions_origin staging_config (Some ''http://evil.example'')
       = (Inl (Error ''Not allowed by CORS''), [LogWarn ''CORS blocked origin: http://evil.example''])"
  by (simp add: corsOptions_origin_def staging_config_def isDevelopment_def allowedOrigins_def)

text \<open>
  C2, amended. In the development environment the origin check accepts every origin.
  In every other environment (production included) it accepts exactly the requests
  whose origin is in the configured allow-list or that carry no origin header or an
  empty one, and rejects every other request with the error
  \<^verbatim>\<open>Not allowed by CORS\<close>, logging the offending origin as a warning.
\<close>

theorem corsOptions_origin_decision:
  "(env cfg = ''development'' \<longrightarrow> corsOptions_origin cfg orig = (Inr True, []))
   \<and> (env cfg \<noteq> ''development'' \<longrightarrow>
        (fst (corsOptions_origin cfg orig) = Inr True)
          = (orig = None \<or> orig = Some [] \<or> (\<exists>ori. orig = Some ori \<and> ori \<in> set (allowedOrigins cfg))))
   \<and> (env cfg \<noteq> ''development'' \<and> orig = Some ori \<and> ori \<noteq> [] \<and> ori \<notin> set (allowedOrigins cfg) \<longrightarrow>
        corsOptions_origin cfg orig
          = (Inl (Error ''Not allowed by CORS''), [LogWarn (''CORS blocked origin: '' @ ori)]))"
  by (auto simp add: corsOptions_origin_def isDevelopment_def split: option.splits)

theorem corsOptions_origin_decision_witness:
  "corsOptions_origin dev_config (Some ''http://any.example'') = (Inr True, [])
   \<and> fst (corsOptions_origin production_config (Some ''https://app.example'')) = Inr True
   \<and> fst (corsOptions_origin production_config None) = Inr True
   \<and> corsOptions_origin production_config (Some ''http://evil.example'')
       = (Inl (Error ''Not allowed by CORS''), [LogWarn ''CORS blocked origin: http://evil.example''])"
proof -
  have a: "corsOptions_origin dev_config (Some ''http://any.example'') = (Inr True, [])"
    using corsOptions_origin_decision [of dev_config "Some ''http://any.example''" "''x''"]
    by (simp add: dev_config_def)
  have b: "fst (corsOptions_origin production_config (Some ''https://app.example'')) = Inr True"
    using corsOptions_origin_decision [of production_config "Some ''https://app.example''" "''x''"]
    by (simp add: production_config_def allowedOrigins_def)
  have c: "fst (corsOptions_origin production_config None) = Inr True"
    using corsOptions_origin_decision [of production_config None "''x''"]
    by (simp add: production_config_def)
  have d: "corsOptions_origin production_config (Some ''http://evil.example'')
       = (Inl (Error ''Not allowed by CORS''), [LogWarn ''CORS blocked origin: http://evil.example''])"
    using corsOptions_origin_decision [of production_config "Some ''http://evil.example''" "''http://evil.example''"]
    by (simp add: production_config_def allowedOrigins_def)
  show ?thesis using a b c d by simp
qed

subsection \<open>Rate limiting\<close>

lemma rateLimit_middleware_skip:
  "opt_skip opts (request_of a) \<Longrightarrow> rateLimit_middleware opts st a = (st, None, [])"
  by (simp add: rateLimit_middleware_def)

lemma rateLimit_middleware_other:
  "\<not> concerns opts key a \<Longrightarrow> fst (rateLimit_middleware opts st a) key = st key"
  by (auto simp add: rateLimit_middleware_def concerns_def Let_def)

lemma rateLimit_middleware_live:
  assumes "st key = Some \<lparr> totalHits = H, resetTime = R \<rparr>"
    and "concerns opts key a" and "at_ms a < R"
  shows "rateLimit_middleware opts st a =
     (if opt_max opts \<le> H
      then (st(key \<mapsto> \<lparr> totalHits = H + 1, resetTime = R \<rparr>),
            Some (fst (opt_handler opts (request_of a))),
            snd (opt_handler opts (request_of a)))
      else if opt_skipSuccessfulRequests opts \<and> succeeds a
      then (st(key \<mapsto> \<lparr> totalHits = H, resetTime = R \<rparr>), None, [])
      else (st(key \<mapsto> \<lparr> totalHits = H + 1, resetTime = R \<rparr>), None, []))"
  using assms
  by (auto simp add: rateLimit_middleware_def concerns_def increment_def Let_def)

lemma rateLimit_middleware_fresh:
  assumes "case st key of None \<Rightarrow> True | Some h \<Rightarrow> resetTime h \<le> at_ms a"
    and "concerns opts key a"
  shows "rateLimit_middleware opts st a =
     rateLimit_middleware opts
       (st(key \<mapsto> \<lparr> totalHits = 0, resetTime = at_ms a + opt_windowMs opts \<rparr>)) a"
  using assms
  by (auto simp add: rateLimit_middleware_def concerns_def increment_def Let_def
      split: option.splits)

lemma run_limiter_Cons:
  "run_limiter f st (a # as) =
     (fst (run_limiter f (fst (f st a)) as),
      snd (f st a) # snd (run_limiter f (fst (f st a)) as))"
  by (simp split: prod.splits)

lemma run_limiter_length: "length (snd (run_limiter f st as)) = length as"
  by (induction as arbitrary: st) (simp_all add: run_limiter_Cons del: run_limiter.simps(2))

lemma counted_before_0: "counted_before opts key 0 as = 0"
  by (simp add: counted_before_def)

lemma counted_before_Suc:
  "counted_before opts key (Suc i) (a # as) =
     (if concerns opts key a \<and> \<not> (opt_skipSuccessfulRequests opts \<and> succeeds a) then 1 else 0)
       + counted_before opts key i as"
  by (simp add: counted_before_def)

lemma run_limiter_live:
  assumes "st key = Some \<lparr> totalHits = H, resetTime = R \<rparr>"
    and "\<forall>a \<in> set as. concerns opts key a \<longrightarrow> at_ms a < R"
    and "i < length as" and "concerns opts key (as ! i)"
  shows "fst (snd (run_limiter (rateLimit_middleware opts) st as) ! i) =
     (if opt_max opts \<le> H + counted_before opts key i as
      then Some (fst (opt_handler opts (request_of (as ! i)))) else None)"
  using assms
proof (induction as arbitrary: st H i)
  case Nil
  then show ?case by simp
next
  case (Cons a as)
  let ?st1 = "fst (rateLimit_middleware opts st a)"
  show ?case
  proof (cases "concerns opts key a")
    case False
    have keep: "?st1 key = Some \<lparr> totalHits = H, resetTime = R \<rparr>"
      using False Cons.prems(1) by (simp add: rateLimit_middleware_other)
    obtain j where j: "i = Suc j"
      using False Cons.prems(4) by (cases i) auto
    have "fst (snd (run_limiter (rateLimit_middleware opts) ?st1 as) ! j) =
       (if opt_max opts \<le> H + counted_before opts key j as
        then Some (fst (opt_handler opts (request_of (as ! j)))) else None)"
      using keep Cons.prems j by (intro Cons.IH) simp_all
    then show ?thesis
      using j False
      by (simp add: run_limiter_Cons counted_before_Suc del: run_limiter.simps(2))
  next
    case True
    have tm: "at_ms a < R" using True Cons.prems(2) by simp
    note step = rateLimit_middleware_live [of st key H R opts a, OF Cons.prems(1) True tm]
    show ?thesis
    proof (cases i)
      case 0
      then show ?thesis
        using step by (simp add: run_limiter_Cons counted_before_0 del: run_limiter.simps(2))
    next
      case (Suc j)
      have jl: "j < length as" and jc: "concerns opts key (as ! j)"
        using Cons.prems(3,4) Suc by simp_all
      have rest: "\<forall>a \<in> set as. concerns opts key a \<longrightarrow> at_ms a < R"
        using Cons.prems(2) by simp
      consider (rej) "opt_max opts \<le> H"
        | (ok) "\<not> opt_max opts \<le> H" "opt_skipSuccessfulRequests opts \<and> succeeds a"
        | (cnt) "\<not> opt_max opts \<le> H" "\<not> (opt_skipSuccessfulRequests opts \<and> succeeds a)"
        by blast
      then show ?thesis
      proof cases
        case rej
        have s1: "?st1 key = Some \<lparr> totalHits = H + 1, resetTime = R \<rparr>"
          using step rej by simp
        have "fst (snd (run_limiter (rateLimit_middleware opts) ?st1 as) ! j) =
           (if opt_max opts \<le> (H + 1) + counted_before opts key j as
            then Some (fst (opt_handler opts (request_of (as ! j)))) else None)"
          using s1 rest jl jc by (rule Cons.IH)
        then show ?thesis
          using Suc rej
          by (simp add: run_limiter_Cons counted_before_Suc del: run_limiter.simps(2))
      next
        case ok
        have s1: "?st1 key = Some \<lparr> totalHits = H, resetTime = R \<rparr>"
          using step ok by simp
        have "fst (snd (run_limiter (rateLimit_middleware opts) ?st1 as) ! j) =
           (if opt_max opts \<le> H + counted_before opts key j as
            then Some (fst (opt_handler opts (request_of (as ! j)))) else None)"
          using s1 rest jl jc by (rule Cons.IH)
        then show ?thesis
          using Suc ok True
          by (simp add: run_limiter_Cons counted_before_Suc del: run_limiter.simps(2))
      next
        case cnt
        have s1: "?st1 key = Some \<lparr> totalHits = H + 1, resetTime = R \<rparr>"
          using step cnt by auto
        have "fst (snd (run_limiter (rateLimit_middleware opts) ?st1 as) ! j) =
           (if opt_max opts \<le> (H + 1) + counted_before opts key j as
            then Some (fst (opt_handler opts (request_of (as ! j)))) else None)"
          using s1 rest jl jc by (rule Cons.IH)
        then show ?thesis
          using Suc cnt True
          by (simp add: run_limiter_Cons counted_before_Suc del: run_limiter.simps(2))
      qed
    qed
  qed
qed

lemma one_window_skip:
  "\<not> concerns opts key a \<Longrightarrow> one_window opts st key (a # as) = one_window opts st key as"
  by (simp add: one_window_def)

lemma one_window_store:
  "st' key = st key \<Longrightarrow> one_window opts st' key as = one_window opts st key as"
  by (simp add: one_window_def split: list.splits)

lemma one_window_first:
  "concerns opts key a \<Longrightarrow>
     one_window opts st key (a # as) =
       ((case st key of None \<Rightarrow> True | Some h \<Rightarrow> resetTime h \<le> at_ms a)
        \<and> (\<forall>a' \<in> set (a # as). concerns opts key a' \<longrightarrow> at_ms a' < at_ms a + opt_windowMs opts))"
  by (simp add: one_window_def list_all_iff) blast

lemma run_limiter_one_window:
  assumes "one_window opts st key as" and "i < length as" and "concerns opts key (as ! i)"
  shows "fst (snd (run_limiter (rateLimit_middleware opts) st as) ! i) =
     (if opt_max opts \<le> counted_before opts key i as
      then Some (fst (opt_handler opts (request_of (as ! i)))) else None)"
  using assms
proof (induction as arbitrary: st i)
  case Nil
  then show ?case by simp
next
  case (Cons a as)
  show ?case
  proof (cases "concerns opts key a")
    case False
    let ?st1 = "fst (rateLimit_middleware opts st a)"
    have keep: "?st1 key = st key"
      using False by (rule rateLimit_middleware_other)
    have "one_window opts st key as"
      using Cons.prems(1) False by (simp add: one_window_skip)
    then have w: "one_window opts ?st1 key as"
      using keep one_window_store [of ?st1 key st opts as] by simp
    obtain j where j: "i = Suc j"
      using False Cons.prems(3) by (cases i) auto
    have "fst (snd (run_limiter (rateLimit_middleware opts) ?st1 as) ! j) =
       (if opt_max opts \<le> counted_before opts key j as
        then Some (fst (opt_handler opts (request_of (as ! j)))) else None)"
      using w Cons.prems(2,3) j by (intro Cons.IH) simp_all
    then show ?thesis
      using j False
      by (simp add: run_limiter_Cons counted_before_Suc del: run_limiter.simps(2))
  next
    case True
    let ?R = "at_ms a + opt_windowMs opts"
    let ?st0 = "st(key \<mapsto> \<lparr> totalHits = 0, resetTime = ?R \<rparr>)"
    have fresh: "case st key of None \<Rightarrow> True | Some h \<Rightarrow> resetTime h \<le> at_ms a"
      and inw: "\<forall>a' \<in> set (a # as). concerns opts key a' \<longrightarrow> at_ms a' < ?R"
      using Cons.prems(1) True by (simp_all add: one_window_first)
    have "rateLimit_middleware opts st a = rateLimit_middleware opts ?st0 a"
      using fresh True by (rule rateLimit_middleware_fresh)
    then have same: "run_limiter (rateLimit_middleware opts) st (a # as)
        = run_limiter (rateLimit_middleware opts) ?st0 (a # as)"
      by (simp add: run_limiter_Cons del: run_limiter.simps(2))
    have "fst (snd (run_limiter (rateLimit_middleware opts) ?st0 (a # as)) ! i) =
       (if opt_max opts \<le> 0 + counted_before opts key i (a # as)
        then Some (fst (opt_handler opts (request_of ((a # as) ! i)))) else None)"
      using inw Cons.prems(2,3)
      by (intro run_limiter_live [where R = ?R]) simp_all
    then show ?thesis using same by simp
  qed
qed

lemma run_limiter_skipped:
  "i < length as \<Longrightarrow> opt_skip opts (request_of (as ! i)) \<Longrightarrow>
     snd (run_limiter (rateLimit_middleware opts) st as) ! i = (None, [])"
proof (induction as arbitrary: st i)
  case Nil
  then show ?case by simp
next
  case (Cons a as)
  show ?case
  proof (cases i)
    case 0
    then show ?thesis
      using Cons.prems
      by (simp add: run_limiter_Cons rateLimit_middleware_skip del: run_limiter.simps(2))
  next
    case (Suc j)
    then show ?thesis
      using Cons.prems Cons.IH [of j "fst (rateLimit_middleware opts st a)"]
      by (simp add: run_limiter_Cons del: run_limiter.simps(2))
  qed
qed

lemma ceil_seconds_60000: "ceil_seconds 60000 = 60"
  by (simp add: ceil_seconds_def double_of_def shift_up.simps shift_down.simps
      round_half_even_def Math_ceil_def Let_def)

lemma ceil_seconds_900000: "ceil_seconds 900000 = 900"
  by (simp add: ceil_seconds_def double_of_def shift_up.simps shift_down.simps
      round_half_even_def Math_ceil_def Let_def)

lemma generalLimiter_handler_response:
  "fst (generalLimiter_handler cfg rq) =
     \<lparr> status = 429,
       body = [(''error'', JString ''Rate limit exceeded''),
               (''message'', JString ''Too many requests from this IP address''),
               (''retryAfter'', JNumber (ceil_seconds (windowMs (rateLimit cfg))))] \<rparr>"
  by (simp add: generalLimiter_handler_def res_json_def)

lemma authLimiter_handler_response:
  "fst (opt_handler (authLimiter_options cfg) rq) =
     \<lparr> status = 429,
       body = [(''error'', JString ''Too many authentication attempts''),
               (''retryAfter'', JNumber 900)] \<rparr>"
  by (simp add: authLimiter_options_def default_handler_def res_json_def)

lemma counted_before_replicate:
  "concerns opts key a \<Longrightarrow> \<not> (opt_skipSuccessfulRequests opts \<and> succeeds a) \<Longrightarrow> i \<le> n \<Longrightarrow>
     counted_before opts key i (replicate n a) = i"
  by (simp add: counted_before_def min_def)

lemma one_window_replicate:
  "concerns opts key a \<Longrightarrow> st key = None \<Longrightarrow> 0 < opt_windowMs opts \<Longrightarrow>
     one_window opts st key (replicate n a)"
  by (cases n) (simp_all add: one_window_def list_all_iff)

text \<open>
  C3, as stated, fails on the code: the retry-after value is the length of the whole
  window, not the time left in the current one. With a window of 60000 ms and a ceiling
  of 2, a client's requests at 0 ms and 10000 ms open a window that ends at 60000 ms;
  the third request, at 59000 ms, comes 1000 ms before the end of the window and is
  rejected with \<^verbatim>\<open>retryAfter\<close> 60.
\<close>

theorem rate_limit_counterexample:
  "fst (run_limiter (generalLimiter dev_config) Map.empty
        [arrival_at 0 ''10.0.0.1'' ''/api/graphrag'' True,
         arrival_at 10000 ''10.0.0.1'' ''/api/graphrag'' True]) ''10.0.0.1''
     = Some \<lparr> totalHits = 2, resetTime = 60000 \<rparr>
   \<and> remaining_ms
        (fst (run_limiter (generalLimiter dev_config) Map.empty
          [arrival_at 0 ''10.0.0.1'' ''/api/graphrag'' True,
           arrival_at 10000 ''10.0.0.1'' ''/api/graphrag'' True]))
        ''10.0.0.1'' 59000 = 1000
   \<and> fst (snd (run_limiter (generalLimiter dev_config) Map.empty
        [arrival_at 0 ''10.0.0.1'' ''/api/graphrag'' True,
         arrival_at 10000 ''10.0.0.1'' ''/api/graphrag'' True,
         arrival_at 59000 ''10.0.0.1'' ''/api/graphrag'' True]) ! 2)
     = Some \<lparr> status = 429,
         body = [(''error'', JString ''Rate limit exceeded''),
                 (''message'', JString ''Too many requests from this IP address''),
                 (''retryAfter'', JNumber 60)] \<rparr>"
  by (simp add: generalLimiter_def generalLimiter_options_def rateLimit_middleware_def
      generalLimiter_handler_def res_json_def increment_def Let_def remaining_ms_def
      ceil_seconds_60000 dev_config_def arrival_at_def)

text \<open>
  C3, amended. For every rate-limit rule and every client, whatever other clients send in
  between: when the client's requests that the rule does not skip all fall into one
  window, a request of the client is rejected exactly when at least ceiling-many of its
  earlier requests in the window are on the count, so the (ceiling+1)-th counted request
  is the first one rejected. The general rule counts every request but those for
  \<^verbatim>\<open>/health\<close>, which it lets pass uncounted, and rejects with status 429 and a
  \<^verbatim>\<open>retryAfter\<close> of \<^verbatim>\<open>Math.ceil(windowMs / 1000)\<close>, the length of the whole
  window in seconds; the rule for the authentication endpoints counts the unsuccessful
  requests only and rejects with status 429 and \<^verbatim>\<open>retryAfter\<close> 900, again the length
  of its whole window in seconds; the rule for the GraphQL endpoint rejects with the
  package's default answer. No rule looks at the time left in the current window.
\<close>

theorem rate_limit_rules_reject_beyond_ceiling:
  "(one_window (generalLimiter_options cfg) st key as \<and> i < length as
      \<and> ip (request_of (as ! i)) = key \<and> path (request_of (as ! i)) \<noteq> ''/health''
     \<longrightarrow> fst (snd (run_limiter (generalLimiter cfg) st as) ! i) =
          (if maxRequests (rateLimit cfg) \<le> counted_before (generalLimiter_options cfg) key i as
           then Some \<lparr> status = 429,
                  body = [(''error'', JString ''Rate limit exceeded''),
                          (''message'', JString ''Too many requests from this IP address''),
                          (''retryAfter'', JNumber (ceil_seconds (windowMs (rateLimit cfg))))] \<rparr>
           else None))
   \<and> (i < length as \<and> path (request_of (as ! i)) = ''/health''
     \<longrightarrow> snd (run_limiter (generalLimiter cfg) st as) ! i = (None, []))
   \<and> (one_window (authLimiter_options cfg) st key as \<and> i < length as
      \<and> ip (request_of (as ! i)) = key
     \<longrightarrow> fst (snd (run_limiter (authLimiter cfg) st as) ! i) =
          (if (if isProduction cfg then 5 else 50) \<le> counted_before (authLimiter_options cfg) key i as
           then Some \<lparr> status = 429,
                  body = [(''error'', JString ''Too many authentication attempts''),
                          (''retryAfter'', JNumber 900)] \<rparr>
           else None))
   \<and> ceil_seconds (opt_windowMs (authLimiter_options cfg)) = 900
   \<and> (one_window (graphqlLimiter_options dflt cfg) st key as \<and> i < length as
      \<and> ip (request_of (as ! i)) = key
     \<longrightarrow> fst (snd (run_limiter (graphqlLimiter dflt cfg) st as) ! i) =
          (if (if isProduction cfg then 100 else 1000)
                \<le> counted_before (graphqlLimiter_options dflt cfg) key i as
           then Some dflt else None))"
proof (intro conjI impI)
  assume a: "one_window (generalLimiter_options cfg) st key as \<and> i < length as
      \<and> ip (request_of (as ! i)) = key \<and> path (request_of (as ! i)) \<noteq> ''/health''"
  then have c: "concerns (generalLimiter_options cfg) key (as ! i)"
    by (simp add: concerns_def generalLimiter_options_def)
  have "fst (snd (run_limiter (rateLimit_middleware (generalLimiter_options cfg)) st as) ! i) =
     (if opt_max (generalLimiter_options cfg) \<le> counted_before (generalLimiter_options cfg) key i as
      then Some (fst (opt_handler (generalLimiter_options cfg) (request_of (as ! i)))) else None)"
    using a c by (intro run_limiter_one_window) simp_all
  moreover have "opt_max (generalLimiter_options cfg) = maxRequests (rateLimit cfg)"
    and "opt_handler (generalLimiter_options cfg) = generalLimiter_handler cfg"
    by (simp_all add: generalLimiter_options_def)
  ultimately show "fst (snd (run_limiter (generalLimiter cfg) st as) ! i) =
          (if maxRequests (rateLimit cfg) \<le> counted_before (generalLimiter_options cfg) key i as
           then Some \<lparr> status = 429,
                  body = [(''error'', JString ''Rate limit exceeded''),
                          (''message'', JString ''Too many requests from this IP address''),
                          (''retryAfter'', JNumber (ceil_seconds (windowMs (rateLimit cfg))))] \<rparr>
           else None)"
    by (simp add: generalLimiter_def generalLimiter_handler_response)
next
  assume a: "i < length as \<and> path (request_of (as ! i)) = ''/health''"
  then have "opt_skip (generalLimiter_options cfg) (request_of (as ! i))"
    by (simp add: generalLimiter_options_def)
  then show "snd (run_limiter (generalLimiter cfg) st as) ! i = (None, [])"
    using a unfolding generalLimiter_def by (intro run_limiter_skipped) simp_all
next
  assume a: "one_window (authLimiter_options cfg) st key as \<and> i < length as
      \<and> ip (request_of (as ! i)) = key"
  then have c: "concerns (authLimiter_options cfg) key (as ! i)"
    by (simp add: concerns_def authLimiter_options_def)
  have "fst (snd (run_limiter (rateLimit_middleware (authLimiter_options cfg)) st as) ! i) =
     (if opt_max (authLimiter_options cfg) \<le> counted_before (authLimiter_options cfg) key i as
      then Some (fst (opt_handler (authLimiter_options cfg) (request_of (as ! i)))) else None)"
    using a c by (intro run_limiter_one_window) simp_all
  moreover have "opt_max (authLimiter_options cfg) = (if isProduction cfg then 5 else 50)"
    by (simp add: authLimiter_options_def)
  ultimately show "fst (snd (run_limiter (authLimiter cfg) st as) ! i) =
          (if (if isProduction cfg then 5 else 50) \<le> counted_before (authLimiter_options cfg) key i as
           then Some \<lparr> status = 429,
                  body = [(''error'', JString ''Too many authentication attempts''),
                          (''retryAfter'', JNumber 900)] \<rparr>
           else None)"
    by (simp only: authLimiter_def authLimiter_handler_response)
next
  have "opt_windowMs (authLimiter_options cfg) = 900000"
    by (simp add: authLimiter_options_def)
  then show "ceil_seconds (opt_windowMs (authLimiter_options cfg)) = 900"
    by (simp only: ceil_seconds_900000)
next
  assume a: "one_window (graphqlLimiter_options dflt cfg) st key as \<and> i < length as
      \<and> ip (request_of (as ! i)) = key"
  then have c: "concerns (graphqlLimiter_options dflt cfg) key (as ! i)"
    by (simp add: concerns_def graphqlLimiter_options_def)
  have "fst (snd (run_limiter (rateLimit_middleware (graphqlLimiter_options dflt cfg)) st as) ! i) =
     (if opt_max (graphqlLimiter_options dflt cfg)
           \<le> counted_before (graphqlLimiter_options dflt cfg) key i as
      then Some (fst (opt_handler (graphqlLimiter_options dflt cfg) (request_of (as ! i))))
      else None)"
    using a c by (intro run_limiter_one_window) simp_all
  moreover have "opt_max (graphqlLimiter_options dflt cfg) = (if isProduction cfg then 100 else 1000)"
    and "\<And>rq. fst (opt_handler (graphqlLimiter_options dflt cfg) rq) = dflt"
    by (simp_all add: graphqlLimiter_options_def)
  ultimately show "fst (snd (run_limiter (graphqlLimiter dflt cfg) st as) ! i) =
          (if (if isProduction cfg then 100 else 1000)
                \<le> counted_before (graphqlLimiter_options dflt cfg) key i as
           then Some dflt else None)"
    by (simp only: graphqlLimiter_def)
qed

theorem rate_limit_rules_reject_beyond_ceiling_witness:
  "fst (snd (run_limiter (generalLimiter dev_config) Map.empty mixed_traffic) ! 4)
     = Some \<lparr> status = 429,
         body = [(''error'', JString ''Rate limit exceeded''),
                 (''message'', JString ''Too many requests from this IP address''),
                 (''retryAfter'', JNumber 60)] \<rparr>
   \<and> snd (run_limiter (generalLimiter dev_config) Map.empty mixed_traffic) ! 2 = (None, [])
   \<and> fst (snd (run_limiter (generalLimiter dev_config) Map.empty mixed_traffic) ! 5) = None
   \<and> fst (snd (run_limiter (authLimiter production_config) Map.empty failed_logins) ! 5)
     = Some \<lparr> status = 429,
         body = [(''error'', JString ''Too many authentication attempts''),
                 (''retryAfter'', JNumber 900)] \<rparr>
   \<and> fst (snd (run_limiter (graphqlLimiter ''default answer'' production_config)
        Map.empty graphql_burst) ! 100) = Some ''default answer''"
proof -
  have w1: "one_window (generalLimiter_options dev_config) Map.empty ''10.0.0.1'' mixed_traffic"
    by (simp add: one_window_def concerns_def generalLimiter_options_def dev_config_def
        mixed_traffic_def arrival_at_def)
  have c1: "counted_before (generalLimiter_options dev_config) ''10.0.0.1'' 4 mixed_traffic = 2"
    by (simp add: counted_before_def concerns_def generalLimiter_options_def dev_config_def
        mixed_traffic_def arrival_at_def)
  have r1: "request_of (mixed_traffic ! 4) =
      \<lparr> ip = ''10.0.0.1'', path = ''/api/graphrag'', headers = Map.empty \<rparr>"
    and r2: "request_of (mixed_traffic ! 2) =
      \<lparr> ip = ''10.0.0.1'', path = ''/health'', headers = Map.empty \<rparr>"
    and r5: "request_of (mixed_traffic ! 5) =
      \<lparr> ip = ''10.0.0.2'', path = ''/api/graphrag'', headers = Map.empty \<rparr>"
    and l1: "length mixed_traffic = 6"
    by (simp_all add: mixed_traffic_def arrival_at_def)
  have m1: "maxRequests (rateLimit dev_config) = 2"
    and s1: "ceil_seconds (windowMs (rateLimit dev_config)) = 60"
    by (simp_all add: dev_config_def ceil_seconds_60000)
  have a: "fst (snd (run_limiter (generalLimiter dev_config) Map.empty mixed_traffic) ! 4)
     = Some \<lparr> status = 429,
         body = [(''error'', JString ''Rate limit exceeded''),
                 (''message'', JString ''Too many requests from this IP address''),
                 (''retryAfter'', JNumber 60)] \<rparr>"
    using rate_limit_rules_reject_beyond_ceiling
      [of dev_config Map.empty "''10.0.0.1''" mixed_traffic 4 "''default answer''"]
    by (simp add: w1 c1 r1 l1 m1 s1)
  have b: "snd (run_limiter (generalLimiter dev_config) Map.empty mixed_traffic) ! 2 = (None, [])"
    using rate_limit_rules_reject_beyond_ceiling
      [of dev_config Map.empty "''10.0.0.1''" mixed_traffic 2 "''default answer''"]
    by (simp add: r2 l1)
  have w2: "one_window (generalLimiter_options dev_config) Map.empty ''10.0.0.2'' mixed_traffic"
    by (simp add: one_window_def concerns_def generalLimiter_options_def dev_config_def
        mixed_traffic_def arrival_at_def)
  have c2: "counted_before (generalLimiter_options dev_config) ''10.0.0.2'' 5 mixed_traffic = 1"
    by (simp add: counted_before_def concerns_def generalLimiter_options_def dev_config_def
        mixed_traffic_def arrival_at_def)
  have c: "fst (snd (run_limiter (generalLimiter dev_config) Map.empty mixed_traffic) ! 5) = None"
    using rate_limit_rules_reject_beyond_ceiling
      [of dev_config Map.empty "''10.0.0.2''" mixed_traffic 5 "''default answer''"]
    by (simp add: w2 c2 r5 l1 m1)
  have w3: "one_window (authLimiter_options production_config) Map.empty ''10.0.0.1'' failed_logins"
    by (simp add: one_window_def concerns_def authLimiter_options_def
        failed_logins_def arrival_at_def)
  have c3: "counted_before (authLimiter_options production_config) ''10.0.0.1'' 5 failed_logins = 5"
    by (simp add: counted_before_def concerns_def authLimiter_options_def
        failed_logins_def arrival_at_def)
  have r3: "ip (request_of (failed_logins ! 5)) = ''10.0.0.1''" and l3: "length failed_logins = 6"
    by (simp_all add: failed_logins_def arrival_at_def)
  have p: "isProduction production_config"
    by (simp add: isProduction_def production_config_def)
  have d: "fst (snd (run_limiter (authLimiter production_config) Map.empty failed_logins) ! 5)
     = Some \<lparr> status = 429,
         body = [(''error'', JString ''Too many authentication attempts''),
                 (''retryAfter'', JNumber 900)] \<rparr>"
    using rate_limit_rules_reject_beyond_ceiling
      [of production_config Map.empty "''10.0.0.1''" failed_logins 5 "''default answer''"]
    by (simp add: w3 c3 r3 l3 p)
  have k4: "concerns (graphqlLimiter_options ''default answer'' production_config) ''10.0.0.1''
      (arrival_at 0 ''10.0.0.1'' ''/graphql'' True)"
    by (simp add: concerns_def graphqlLimiter_options_def arrival_at_def)
  have w4: "one_window (graphqlLimiter_options ''default answer'' production_config) Map.empty
      ''10.0.0.1'' graphql_burst"
    unfolding graphql_burst_def using k4
    by (intro one_window_replicate) (simp_all add: graphqlLimiter_options_def)
  have c4: "counted_before (graphqlLimiter_options ''default answer'' production_config)
      ''10.0.0.1'' 100 graphql_burst = 100"
    unfolding graphql_burst_def using k4
    by (intro counted_before_replicate) (simp_all add: graphqlLimiter_options_def)
  have r4: "ip (request_of (graphql_burst ! 100)) = ''10.0.0.1''" and l4: "length graphql_burst = 101"
    by (simp_all add: graphql_burst_def arrival_at_def)
  have e: "fst (snd (run_limiter (graphqlLimiter ''default answer'' production_config)
        Map.empty graphql_burst) ! 100) = Some ''default answer''"
    using rate_limit_rules_reject_beyond_ceiling
      [of production_config Map.empty "''10.0.0.1''" graphql_burst 100 "''default answer''"]
    by (simp add: w4 c4 r4 l4 p)
  show ?thesis using a b c d e by blast
qed

subsection \<open>Authentication context\<close>


lemma resolved_user_alloc:
  "resolved_user (alloc obj m) = Inr (user obj)"
  by (simp add: resolved_user_def alloc_def)

lemma resolved_user_error: "resolved_user (m, Inl e) = Inl e"
  by (simp add: resolved_user_def)

lemma apollo_context_user:
  "resolved_user (apollo_context vt m (Some r) None) =
     (case headers r ''authorization'' of
        None \<Rightarrow> Inr None
      | Some c \<Rightarrow> if js_replace ''Bearer '' [] c = [] then Inr None
                  else vt (js_replace ''Bearer '' [] c))"
  by (simp add: apollo_context_def resolved_user_alloc resolved_user_error
      split: option.splits sum.splits)

lemma onConnect_user:
  "resolved_user (onConnect vt m (Some ps)) =
     (case ps ''authorization'' of
        None \<Rightarrow> Inr None
      | Some c \<Rightarrow> if js_replace ''Bearer '' [] c = [] then Inr None
                  else vt (js_replace ''Bearer '' [] c))"
  by (simp add: onConnect_def resolved_user_alloc resolved_user_error
      split: option.splits sum.splits)

lemma apollo_context_verified:
  "verified (fst (apollo_context vt m (Some r) None)) =
     (case headers r ''authorization'' of
        None \<Rightarrow> verified m
      | Some c \<Rightarrow> if js_replace ''Bearer '' [] c = [] then verified m
                  else verified m @ [js_replace ''Bearer '' [] c])"
  by (simp add: apollo_context_def alloc_def split: option.splits sum.splits)

lemma onConnect_verified:
  "verified (fst (onConnect vt m (Some ps))) =
     (case ps ''authorization'' of
        None \<Rightarrow> verified m
      | Some c \<Rightarrow> if js_replace ''Bearer '' [] c = [] then verified m
                  else verified m @ [js_replace ''Bearer '' [] c])"
  by (simp add: onConnect_def alloc_def split: option.splits sum.splits)



lemma apollo_context_result:
  "snd (apollo_context vt m (Some r) None) =
     (case headers r ''authorization'' of
        None \<Rightarrow> Inr (length (heap m))
      | Some c \<Rightarrow> if js_replace ''Bearer '' [] c = [] then Inr (length (heap m))
                  else (case vt (js_replace ''Bearer '' [] c) of
                          Inl e \<Rightarrow> Inl e | Inr u \<Rightarrow> Inr (length (heap m))))"
  by (simp add: apollo_context_def alloc_def split: option.splits sum.splits)

lemma onConnect_result:
  "snd (onConnect vt m (Some ps)) =
     (case ps ''authorization'' of
        None \<Rightarrow> Inr (length (heap m))
      | Some c \<Rightarrow> if js_replace ''Bearer '' [] c = [] then Inr (length (heap m))
                  else (case vt (js_replace ''Bearer '' [] c) of
                          Inl e \<Rightarrow> Inl e | Inr u \<Rightarrow> Inr (length (heap m))))"
  by (simp add: onConnect_def alloc_def split: option.splits sum.splits)

text \<open>
  C6, as stated, fails on the code: neither resolver catches what the verifier throws.
  With a verifier that throws on the token \<^verbatim>\<open>boom\<close>, the credential
  \<^verbatim>\<open>Bearer boom\<close> makes both resolutions end with that error instead of a context
  with an absent user. And at the handshake of a client that sent no connection
  parameters at all, reading the credential itself throws.
\<close>

theorem auth_raises_counterexample:
  "demo_verifyToken ''boom'' = Inl (Error ''jwt malformed'')
   \<and> snd (apollo_context demo_verifyToken empty_memory
        (Some (request_with (Some ''Bearer boom''))) None) = Inl (Error ''jwt malformed'')
   \<and> snd (onConnect demo_verifyToken empty_memory (Some (params_with (Some ''Bearer boom''))))
       = Inl (Error ''jwt malformed'')
   \<and> snd (onConnect demo_verifyToken empty_memory None)
       = Inl (TypeError ''Cannot read properties of undefined'')"
  by (simp add: apollo_context_def onConnect_def demo_verifyToken_def request_with_def
      params_with_def)

text \<open>
  C6, amended. With a missing credential (no authorization value, or one that is empty
  once the prefix is removed) the resolution, for a request and for a handshake that
  carries connection parameters, returns a context object whose user identity is absent;
  it neither raises nor calls the verifier. With a credential present the outcome is the
  verifier's: when the verifier reports no identity, the resolution returns a context
  object whose user identity is absent; when the verifier throws, the resolution ends
  with that error on both transports.
\<close>

theorem auth_missing_or_unverified:
  "headers r ''authorization'' = auth \<and> ps ''authorization'' = auth \<longrightarrow>
     (auth = None \<or> (auth = Some c \<and> js_replace ''Bearer '' [] c = []) \<longrightarrow>
        resolved_user (apollo_context vt m (Some r) None) = Inr None
        \<and> resolved_user (onConnect vt m (Some ps)) = Inr None
        \<and> snd (apollo_context vt m (Some r) None) = Inr (length (heap m))
        \<and> snd (onConnect vt m (Some ps)) = Inr (length (heap m))
        \<and> verified (fst (apollo_context vt m (Some r) None)) = verified m
        \<and> verified (fst (onConnect vt m (Some ps))) = verified m)
     \<and> (auth = Some c \<and> js_replace ''Bearer '' [] c \<noteq> []
          \<and> vt (js_replace ''Bearer '' [] c) = Inr None \<longrightarrow>
        resolved_user (apollo_context vt m (Some r) None) = Inr None
        \<and> resolved_user (onConnect vt m (Some ps)) = Inr None
        \<and> snd (apollo_context vt m (Some r) None) = Inr (length (heap m))
        \<and> snd (onConnect vt m (Some ps)) = Inr (length (heap m)))
     \<and> (auth = Some c \<and> js_replace ''Bearer '' [] c \<noteq> []
          \<and> vt (js_replace ''Bearer '' [] c) = Inl e \<longrightarrow>
        snd (apollo_context vt m (Some r) None) = Inl e
        \<and> snd (onConnect vt m (Some ps)) = Inl e)"
proof (intro impI conjI)
  assume h: "headers r ''authorization'' = auth \<and> ps ''authorization'' = auth"
    and a: "auth = None \<or> (auth = Some c \<and> js_replace ''Bearer '' [] c = [])"
  show "resolved_user (apollo_context vt m (Some r) None) = Inr None"
    using h a by (auto simp add: apollo_context_user)
  show "resolved_user (onConnect vt m (Some ps)) = Inr None"
    using h a by (auto simp add: onConnect_user)
  show "snd (apollo_context vt m (Some r) None) = Inr (length (heap m))"
    using h a by (auto simp add: apollo_context_result)
  show "snd (onConnect vt m (Some ps)) = Inr (length (heap m))"
    using h a by (auto simp add: onConnect_result)
  show "verified (fst (apollo_context vt m (Some r) None)) = verified m"
    using h a by (auto simp add: apollo_context_verified)
  show "verified (fst (onConnect vt m (Some ps))) = verified m"
    using h a by (auto simp add: onConnect_verified)
next
  assume h: "headers r ''authorization'' = auth \<and> ps ''authorization'' = auth"
    and a: "auth = Some c \<and> js_replace ''Bearer '' [] c \<noteq> []
          \<and> vt (js_replace ''Bearer '' [] c) = Inr None"
  show "resolved_user (apollo_context vt m (Some r) None) = Inr None"
    using h a by (auto simp add: apollo_context_user)
  show "resolved_user (onConnect vt m (Some ps)) = Inr None"
    using h a by (auto simp add: onConnect_user)
  show "snd (apollo_context vt m (Some r) None) = Inr (length (heap m))"
    using h a by (auto simp add: apollo_context_result)
  show "snd (onConnect vt m (Some ps)) = Inr (length (heap m))"
    using h a by (auto simp add: onConnect_result)
next
  assume h: "headers r ''authorization'' = auth \<and> ps ''authorization'' = auth"
    and a: "auth = Some c \<and> js_replace ''Bearer '' [] c \<noteq> []
          \<and> vt (js_replace ''Bearer '' [] c) = Inl e"
  show "snd (apollo_context vt m (Some r) None) = Inl e"
    using h a by (auto simp add: apollo_context_result)
  show "snd (onConnect vt m (Some ps)) = Inl e"
    using h a by (auto simp add: onConnect_result)
qed

theorem auth_missing_or_unverified_witness:
  "resolved_user (apollo_context demo_verifyToken empty_memory (Some (request_with None)) None)
     = Inr None
   \<and> resolved_user (onConnect demo_verifyToken empty_memory (Some (params_with None))) = Inr None
   \<and> verified (fst (onConnect demo_verifyToken empty_memory (Some (params_with None)))) = []
   \<and> resolved_user (apollo_context demo_verifyToken empty_memory
        (Some (request_with (Some ''Bearer expired''))) None) = Inr None
   \<and> snd (onConnect demo_verifyToken empty_memory (Some (params_with (Some ''Bearer expired''))))
       = Inr 0
   \<and> snd (apollo_context demo_verifyToken empty_memory
        (Some (request_with (Some ''Bearer boom''))) None) = Inl (Error ''jwt malformed'')
   \<and> snd (onConnect demo_verifyToken empty_memory (Some (params_with (Some ''Bearer boom''))))
       = Inl (Error ''jwt malformed'')"
proof -
  have a: "resolved_user (apollo_context demo_verifyToken empty_memory (Some (request_with None)) None)
     = Inr None
   \<and> resolved_user (onConnect demo_verifyToken empty_memory (Some (params_with None))) = Inr None
   \<and> verified (fst (onConnect demo_verifyToken empty_memory (Some (params_with None)))) = []"
    using auth_missing_or_unverified
      [of "request_with None" None "params_with None" "''x''" demo_verifyToken empty_memory
          "Error ''x''"]
    by (simp add: request_with_def params_with_def empty_memory_def)
  have b: "resolved_user (apollo_context demo_verifyToken empty_memory
        (Some (request_with (Some ''Bearer expired''))) None) = Inr None
   \<and> snd (onConnect demo_verifyToken empty_memory (Some (params_with (Some ''Bearer expired''))))
       = Inr 0"
    using auth_missing_or_unverified
      [of "request_with (Some ''Bearer expired'')" "Some ''Bearer expired''"
          "params_with (Some ''Bearer expired'')" "''Bearer expired''" demo_verifyToken
          empty_memory "Error ''x''"]
    by (simp add: request_with_def params_with_def demo_verifyToken_def empty_memory_def)
  have c: "snd (apollo_context demo_verifyToken empty_memory
        (Some (request_with (Some ''Bearer boom''))) None) = Inl (Error ''jwt malformed'')
   \<and> snd (onConnect demo_verifyToken empty_memory (Some (params_with (Some ''Bearer boom''))))
       = Inl (Error ''jwt malformed'')"
    using auth_missing_or_unverified
      [of "request_with (Some ''Bearer boom'')" "Some ''Bearer boom''"
          "params_with (Some ''Bearer boom'')" "''Bearer boom''" demo_verifyToken
          empty_memory "Error ''jwt malformed''"]
    by (simp add: request_with_def params_with_def demo_verifyToken_def)
  show ?thesis using a b c by blast
qed

subsection \<open>Connection context\<close>

lemma apollo_context_connection:
  "apollo_context vt m rq (Some c) = (m, Inr (connection_context c))"
  by (simp add: apollo_context_def)

lemma ws_operations_same_object:
  "ws_operations vt m c n = (m, replicate n (Inr (connection_context c)))"
  by (induction n) (simp_all add: apollo_context_connection)

lemma apollo_context_heap_prefix:
  "prefix (heap m) (heap (fst (apollo_context vt m rq conn)))"
  by (simp add: apollo_context_def alloc_def split: option.splits sum.splits)

lemma onConnect_heap_prefix:
  "prefix (heap m) (heap (fst (onConnect vt m ps)))"
  by (simp add: onConnect_def alloc_def split: option.splits sum.splits)

lemma gateway_step_heap_prefix:
  "prefix (heap m) (heap (gateway_step vt m ev))"
  by (cases ev) (simp_all add: gateway_step_def apollo_context_heap_prefix onConnect_heap_prefix)

lemma gateway_run_heap_prefix:
  "prefix (heap m) (heap (gateway_run vt m evs))"
proof (induction evs arbitrary: m)
  case Nil
  then show ?case by (simp add: gateway_run_def)
next
  case (Cons ev evs)
  have "prefix (heap m) (heap (gateway_step vt m ev))"
    by (rule gateway_step_heap_prefix)
  moreover have "prefix (heap (gateway_step vt m ev)) (heap (gateway_run vt (gateway_step vt m ev) evs))"
    by (rule Cons.IH)
  ultimately have "prefix (heap m) (heap (gateway_run vt (gateway_step vt m ev) evs))"
    by (rule prefix_order.order_trans)
  then show ?case by (simp add: gateway_run_def)
qed

lemma prefix_nth: "prefix xs ys \<Longrightarrow> i < length xs \<Longrightarrow> ys ! i = xs ! i"
  by (auto simp add: prefix_def nth_append)

lemma onConnect_address:
  "onConnect vt m ps = (m1, Inr a) \<Longrightarrow> a < length (heap m1)"
  by (auto simp add: onConnect_def alloc_def split: option.splits sum.splits if_splits)

text \<open>
  C7. The context of a persistent connection is the object made at connect time: every
  operation on the connection is given that same object (the same address), and an
  operation neither calls the verifier nor makes or changes an object, since it leaves
  the memory as it is. Whatever the server resolves afterwards, for requests or for any
  connection, the object at that address, its user field included, stays the same.
\<close>

theorem connection_context_fixed:
  "ws_connect vt m ps = (m1, Inr c) \<longrightarrow>
     ws_operations vt m1 c n = (m1, replicate n (Inr (connection_context c)))
     \<and> heap (gateway_run vt m1 evs) ! connection_context c = heap m1 ! connection_context c"
proof (intro impI conjI)
  assume a: "ws_connect vt m ps = (m1, Inr c)"
  show "ws_operations vt m1 c n = (m1, replicate n (Inr (connection_context c)))"
    by (rule ws_operations_same_object)
  have "onConnect vt m ps = (m1, Inr (connection_context c))"
    using a by (auto simp add: ws_connect_def split: prod.splits sum.splits)
  then have "connection_context c < length (heap m1)"
    by (rule onConnect_address)
  then show "heap (gateway_run vt m1 evs) ! connection_context c = heap m1 ! connection_context c"
    using gateway_run_heap_prefix [of m1 vt evs] by (simp add: prefix_nth)
qed

theorem connection_context_fixed_witness:
  "ws_connect demo_verifyToken empty_memory (Some (params_with (Some ''Bearer good'')))
     = (connected_memory, Inr \<lparr> connection_context = 0 \<rparr>)
   \<and> ws_operations demo_verifyToken connected_memory \<lparr> connection_context = 0 \<rparr> 3
     = (connected_memory, [Inr 0, Inr 0, Inr 0])
   \<and> user (heap (gateway_run demo_verifyToken connected_memory
        [HttpRequest (request_with (Some ''Bearer boom'')), WsOperation \<lparr> connection_context = 0 \<rparr>,
         WsConnect (Some (params_with None)), WsConnect None]) ! 0) = Some ''alice''"
proof -
  have c: "ws_connect demo_verifyToken empty_memory (Some (params_with (Some ''Bearer good'')))
     = (connected_memory, Inr \<lparr> connection_context = 0 \<rparr>)"
    by (simp add: ws_connect_def onConnect_def params_with_def demo_verifyToken_def
        alloc_def empty_memory_def connected_memory_def)
  have r: "replicate 3 (Inr (0::nat)) = [Inr 0, Inr 0, Inr (0::nat) :: error + nat]"
    by (simp add: numeral_3_eq_3)
  show ?thesis
    using c r connection_context_fixed [of demo_verifyToken empty_memory
        "Some (params_with (Some ''Bearer good''))" connected_memory "\<lparr> connection_context = 0 \<rparr>" 3
        "[HttpRequest (request_with (Some ''Bearer boom'')), WsOperation \<lparr> connection_context = 0 \<rparr>,
         WsConnect (Some (params_with None)), WsConnect None]"]
    by (simp add: connected_memory_def)
qed

subsection \<open>Startup\<close>

lemma exits_startServer_catch: "exits (startServer_catch e) = [1]"
  by (simp add: startServer_catch_def)

lemma binds_startServer_catch: "binds (startServer_catch e) = []"
  by (simp add: startServer_catch_def)

lemma last_startServer_catch: "last (startServer_catch e) = Exit 1"
  by (simp add: startServer_catch_def)

lemma startServer_catch_nonempty: "startServer_catch e \<noteq> []"
  by (simp add: startServer_catch_def)

lemma startServer_dependency_failure:
  assumes "connectNeo4j w \<noteq> None \<or> connectPostgres w \<noteq> None \<or> connectRedis w \<noteq> None"
  shows "exits (startServer cfg w) = [1]" and "binds (startServer cfg w) = []"
    and "last (startServer cfg w) = Exit 1"
  using assms
  by (auto simp add: startServer_def exits_startServer_catch binds_startServer_catch
      last_startServer_catch startServer_catch_nonempty split: option.splits)

lemma startServer_binds_need_dependencies:
  assumes "binds (startServer cfg w) \<noteq> []"
  shows "connectNeo4j w = None \<and> connectPostgres w = None \<and> connectRedis w = None"
  using assms startServer_dependency_failure(2) [of w cfg] by blast

lemma startServer_connect_order:
  assumes "connectNeo4j w = None" "connectPostgres w = None" "connectRedis w = None"
    "apolloStart w = None"
  shows "precedes ConnectNeo4j ConnectPostgres (startServer cfg w)"
    and "precedes ConnectPostgres ConnectRedis (startServer cfg w)"
    and "precedes ConnectRedis (FindAvailablePort (port cfg)) (startServer cfg w)"
  using assms by (simp_all add: startServer_def precedes_def)

lemma binds_need_apolloStart:
  assumes "binds (startServer cfg w) \<noteq> []"
  shows "apolloStart w = None"
  using assms
  by (auto simp add: startServer_def binds_startServer_catch split: option.splits)

text \<open>
  C8. If one of the three dependency connect operations fails, the process logs the
  failure and exits with status 1, and neither the port resolver's probe nor the real
  listener has bound. Conversely, a listener binds only when all three connects have
  succeeded, and after them, in the order graph store, relational store, cache.
\<close>

theorem startServer_all_or_nothing:
  "(connectNeo4j w \<noteq> None \<or> connectPostgres w \<noteq> None \<or> connectRedis w \<noteq> None \<longrightarrow>
      exits (startServer cfg w) = [1] \<and> last (startServer cfg w) = Exit 1
      \<and> binds (startServer cfg w) = [])
   \<and> (binds (startServer cfg w) \<noteq> [] \<longrightarrow>
        connectNeo4j w = None \<and> connectPostgres w = None \<and> connectRedis w = None
        \<and> precedes ConnectNeo4j ConnectPostgres (startServer cfg w)
        \<and> precedes ConnectPostgres ConnectRedis (startServer cfg w)
        \<and> precedes ConnectRedis (FindAvailablePort (port cfg)) (startServer cfg w))"
proof (intro conjI impI)
  assume f: "connectNeo4j w \<noteq> None \<or> connectPostgres w \<noteq> None \<or> connectRedis w \<noteq> None"
  show "exits (startServer cfg w) = [1]" using f by (rule startServer_dependency_failure(1))
  show "last (startServer cfg w) = Exit 1" using f by (rule startServer_dependency_failure(3))
  show "binds (startServer cfg w) = []" using f by (rule startServer_dependency_failure(2))
next
  assume b: "binds (startServer cfg w) \<noteq> []"
  have d: "connectNeo4j w = None \<and> connectPostgres w = None \<and> connectRedis w = None"
    using b by (rule startServer_binds_need_dependencies)
  have a: "apolloStart w = None" using b by (rule binds_need_apolloStart)
  show "connectNeo4j w = None" "connectPostgres w = None" "connectRedis w = None"
    using d by simp_all
  show "precedes ConnectNeo4j ConnectPostgres (startServer cfg w)"
    "precedes ConnectPostgres ConnectRedis (startServer cfg w)"
    "precedes ConnectRedis (FindAvailablePort (port cfg)) (startServer cfg w)"
    using d a by (simp_all add: startServer_connect_order)
qed

theorem startServer_all_or_nothing_witness:
  "exits (startServer dev_config no_database_world) = [1]
   \<and> binds (startServer dev_config no_database_world) = []
   \<and> binds (startServer dev_config healthy_world) = [4000, 4000]
   \<and> connectRedis healthy_world = None
   \<and> precedes ConnectRedis (FindAvailablePort 4000) (startServer dev_config healthy_world)"
proof -
  have p: "findAvailablePort dev_config (probe healthy_world) (port dev_config) = Inr 4000"
    by (simp add: findAvailablePort_listening healthy_world_def dev_config_def)
  have b: "binds (startServer dev_config healthy_world) = [4000, 4000]"
    unfolding startServer_def p
    by (simp add: healthy_world_def dev_config_def listening_logs_def)
  have a: "exits (startServer dev_config no_database_world) = [1]
   \<and> binds (startServer dev_config no_database_world) = []"
    using startServer_all_or_nothing [of no_database_world dev_config]
    by (simp add: no_database_world_def)
  have nb: "binds (startServer dev_config healthy_world) \<noteq> []"
    using b by simp
  have pt: "port dev_config = 4000"
    by (simp add: dev_config_def)
  have "connectRedis healthy_world = None
   \<and> precedes ConnectRedis (FindAvailablePort (port dev_config)) (startServer dev_config healthy_world)"
    using startServer_all_or_nothing [of healthy_world dev_config] nb by blast
  then have c: "connectRedis healthy_world = None
   \<and> precedes ConnectRedis (FindAvailablePort 4000) (startServer dev_config healthy_world)"
    unfolding pt .
  show ?thesis using a b c by blast
qed

subsection \<open>Shutdown\<close>

text \<open>
  C4, as stated, fails on the code: the dependency connections are released before the
  HTTP listener stops serving and drains. With every collaborator answering well, the
  handler stops the GraphQL server, then calls \<^verbatim>\<open>closeConnections\<close>, and only then
  \<^verbatim>\<open>httpServer.close\<close>.
\<close>

theorem sigterm_handler_counterexample:
  "sigterm_handler healthy_world =
     [Log (LogInfo ''SIGTERM received, shutting down gracefully''),
      ApolloStop, CloseConnections, HttpClose,
      Log (LogInfo ''Process terminated''), Exit 0]
   \<and> precedes CloseConnections HttpClose (sigterm_handler healthy_world)
   \<and> \<not> precedes HttpClose CloseConnections (sigterm_handler healthy_world)"
  by (simp add: sigterm_handler_def healthy_world_def precedes_def)

text \<open>
  C4, amended. On the termination signal the handler stops the GraphQL server, then
  releases the dependency connections, then closes the HTTP listener (which stops
  accepting connections and waits for the open ones to end). The process exits with
  status 0 exactly when the stop and the release have succeeded and the listener's close
  callback has been called, and it does so after these three steps, in that order. When
  the stop or the release fails, the process exits with status 1 without closing the
  listener; when the listener never finishes closing, the handler does not exit.
\<close>

theorem sigterm_handler_order:
  "(exits (sigterm_handler w) = [0])
      = (apolloStop w = None \<and> closeConnections w = None \<and> closed w)
   \<and> (0 \<in> set (exits (sigterm_handler w)) \<longrightarrow>
        sigterm_handler w =
          [Log (LogInfo ''SIGTERM received, shutting down gracefully''),
           ApolloStop, CloseConnections, HttpClose,
           Log (LogInfo ''Process terminated''), Exit 0])
   \<and> (apolloStop w \<noteq> None \<or> closeConnections w \<noteq> None \<longrightarrow>
        exits (sigterm_handler w) = [1] \<and> HttpClose \<notin> set (sigterm_handler w))
   \<and> (apolloStop w = None \<and> closeConnections w = None \<and> \<not> closed w \<longrightarrow>
        exits (sigterm_handler w) = [])"
  by (auto simp add: sigterm_handler_def unhandledRejection_def split: option.splits)

theorem sigterm_handler_order_witness:
  "exits (sigterm_handler healthy_world) = [0]
   \<and> sigterm_handler healthy_world =
     [Log (LogInfo ''SIGTERM received, shutting down gracefully''),
      ApolloStop, CloseConnections, HttpClose,
      Log (LogInfo ''Process terminated''), Exit 0]
   \<and> exits (sigterm_handler (healthy_world \<lparr> closeConnections := Some (Error ''redis quit failed'') \<rparr>)) = [1]
   \<and> exits (sigterm_handler (healthy_world \<lparr> closed := False \<rparr>)) = []"
proof -
  have a: "exits (sigterm_handler healthy_world) = [0]"
    using sigterm_handler_order [of healthy_world] by (simp add: healthy_world_def)
  have b: "sigterm_handler healthy_world =
     [Log (LogInfo ''SIGTERM received, shutting down gracefully''),
      ApolloStop, CloseConnections, HttpClose,
      Log (LogInfo ''Process terminated''), Exit 0]"
    using sigterm_handler_order [of healthy_world] a by simp
  have c: "exits (sigterm_handler (healthy_world \<lparr> closeConnections := Some (Error ''redis quit failed'') \<rparr>)) = [1]"
    using sigterm_handler_order [of "healthy_world \<lparr> closeConnections := Some (Error ''redis quit failed'') \<rparr>"]
    by simp
  have d: "exits (sigterm_handler (healthy_world \<lparr> closed := False \<rparr>)) = []"
    using sigterm_handler_order [of "healthy_world \<lparr> closed := False \<rparr>"]
    by (simp add: healthy_world_def)
  show ?thesis using a b c d by simp
qed

subsection \<open>Final error handler\<close>

text \<open>
  C9. For every error that reaches the final error handler, the handler sends one
  response, of status 500, and does not exit. In the environment
  \<^verbatim>\<open>development\<close> the message field is the error's message (the field is left out
  when the error has none); in every other environment the body is fixed, with the
  message \<^verbatim>\<open>Something went wrong\<close>, and so is the same for every error.
\<close>

theorem express_error_handler_response:
  "exits (express_error_handler cfg err) = []
   \<and> map status (responses (express_error_handler cfg err)) = [500]
   \<and> (env cfg = ''development'' \<longrightarrow>
        responses (express_error_handler cfg err) =
          [\<lparr> status = 500,
             body = (''error'', JString ''Internal Server Error'')
                    # (case message err of None \<Rightarrow> [] | Some m \<Rightarrow> [(''message'', JString m)]) \<rparr>])
   \<and> (env cfg \<noteq> ''development'' \<longrightarrow>
        responses (express_error_handler cfg err) =
          [\<lparr> status = 500,
             body = [(''error'', JString ''Internal Server Error''),
                     (''message'', JString ''Something went wrong'')] \<rparr>]
        \<and> responses (express_error_handler cfg err) = responses (express_error_handler cfg err'))"
  by (simp add: express_error_handler_def res_json_def split: option.splits)

theorem express_error_handler_response_witness:
  "responses (express_error_handler dev_config secret_error) =
     [\<lparr> status = 500,
        body = [(''error'', JString ''Internal Server Error''),
                (''message'', JString ''connect ECONNREFUSED 10.1.2.3:5432'')] \<rparr>]
   \<and> responses (express_error_handler production_config secret_error) =
     [\<lparr> status = 500,
        body = [(''error'', JString ''Internal Server Error''),
                (''message'', JString ''Something went wrong'')] \<rparr>]
   \<and> responses (express_error_handler staging_config secret_error) =
     [\<lparr> status = 500,
        body = [(''error'', JString ''Internal Server Error''),
                (''message'', JString ''Something went wrong'')] \<rparr>]"
proof -
  have a: "responses (express_error_handler dev_config secret_error) =
     [\<lparr> status = 500,
        body = [(''error'', JString ''Internal Server Error''),
                (''message'', JString ''connect ECONNREFUSED 10.1.2.3:5432'')] \<rparr>]"
    using express_error_handler_response [of dev_config secret_error secret_error]
    by (simp add: dev_config_def secret_error_def)
  have b: "responses (express_error_handler production_config secret_error) =
     [\<lparr> status = 500,
        body = [(''error'', JString ''Internal Server Error''),
                (''message'', JString ''Something went wrong'')] \<rparr>]"
    using express_error_handler_response [of production_config secret_error secret_error]
    by (simp add: production_config_def)
  have c: "responses (express_error_handler staging_config secret_error) =
     [\<lparr> status = 500,
        body = [(''error'', JString ''Internal Server Error''),
                (''message'', JString ''Something went wrong'')] \<rparr>]"
    using express_error_handler_response [of staging_config secret_error secret_error]
    by (simp add: staging_config_def)
  show ?thesis using a b c by simp
qed

end
